theory Spec2Isabelle
  imports Complex_Main "HOL-Library.Word"
begin

unbundle bit_operations_syntax

section \<open>The EPOS driver of epos\_hardware (src/epos\_hardware/src/util/epos.cpp)\<close>

text \<open>
  The theory embeds the class \<open>Epos\<close> and the helper class \<open>ParameterSetLoader\<close>:
  the constructor, \<open>init\<close>, \<open>doSwitch\<close>, \<open>read\<close>, \<open>write\<close> and
  \<open>buildMotorStatus\<close>. A member function \<open>Epos::f\<close> is the constant \<open>Epos_f\<close>;
  member names are those of the source without the trailing underscore (\<open>has_init_\<close>
  is \<open>has_init\<close>).

  Conventions of the embedding:
  \<^item> a C++ \<open>double\<close> is a value of type \<open>double\<close> below: NaN, an infinity, or a finite
    value given by the real number it denotes (rounding is not modelled, zero has no sign);
  \<^item> a C++ \<open>int\<close> is a mathematical integer; a conversion or an operation that C++ leaves
    undefined (a \<open>double\<close> that does not fit \<open>int\<close>, a shift out of range, a null
    handle that is dereferenced) makes the enclosing function return \<open>None\<close>; what an
    uninitialised variable or member holds is a parameter of the function that reads it;
  \<^item> the device behind the vendor command library is a function from the calls issued so
    far and the present call to its reply (\<open>None\<close>: the call reports failure);
  \<^item> the ROS parameter server is seen through typed lookups, one partial map per C++ type
    that \<open>getParam\<close> is instantiated with.
\<close>

subsection \<open>Doubles\<close>

datatype double = NaN | PInf | NInf | Fin real

definition isnan :: "double \<Rightarrow> bool" where
  "isnan d = (d = NaN)"

fun dneg :: "double \<Rightarrow> bool" where
  "dneg (Fin x) = (x < 0)"
| "dneg NInf = True"
| "dneg PInf = False"
| "dneg NaN = False"

definition dinf :: "bool \<Rightarrow> double" where
  "dinf negative = (if negative then NInf else PInf)"

fun dmul :: "double \<Rightarrow> double \<Rightarrow> double" where
  "dmul NaN y = NaN"
| "dmul x NaN = NaN"
| "dmul (Fin a) (Fin b) = Fin (a * b)"
| "dmul x y = (if x = Fin 0 \<or> y = Fin 0 then NaN else dinf (dneg x \<noteq> dneg y))"

fun ddiv :: "double \<Rightarrow> double \<Rightarrow> double" where
  "ddiv NaN y = NaN"
| "ddiv x NaN = NaN"
| "ddiv (Fin a) (Fin b) =
     (if b = 0 then (if a = 0 then NaN else dinf (a < 0)) else Fin (a / b))"
| "ddiv (Fin a) y = Fin 0"
| "ddiv x (Fin b) = dinf (dneg x \<noteq> (b < 0))"
| "ddiv x y = NaN"

definition INT_MIN :: int where
  "INT_MIN = - (2 ^ 31)"

definition INT_MAX :: int where
  "INT_MAX = 2 ^ 31 - 1"

text \<open>Truncation toward zero, the rounding of a C++ conversion from \<open>double\<close> to an integer type.\<close>

definition trunc :: "real \<Rightarrow> int" where
  "trunc x = (if 0 \<le> x then \<lfloor>x\<rfloor> else \<lceil>x\<rceil>)"

text \<open>The cast \<open>(int)d\<close>: defined when the truncated value fits \<open>int\<close>.\<close>

definition double_to_int :: "double \<Rightarrow> int option" where
  "double_to_int d =
     (case d of
        Fin x \<Rightarrow> (if INT_MIN \<le> trunc x \<and> trunc x \<le> INT_MAX then Some (trunc x) else None)
      | PInf \<Rightarrow> None
      | NInf \<Rightarrow> None
      | NaN \<Rightarrow> None)"

text \<open>The initialisation \<open>uint32_t data = d\<close>.\<close>

definition double_to_uint32 :: "real \<Rightarrow> int option" where
  "double_to_uint32 x = (if 0 \<le> trunc x \<and> trunc x < 2 ^ 32 then Some (trunc x) else None)"

text \<open>\<open>std::hex\<close> output of an unsigned number.\<close>

definition hex_digit :: "nat \<Rightarrow> char" where
  "hex_digit d = ''0123456789abcdef'' ! d"

fun hex :: "nat \<Rightarrow> string" where
  "hex n = (if n < 16 then [hex_digit n] else hex (n div 16) @ [hex_digit (n mod 16)])"

declare hex.simps [simp del]

subsection \<open>ROS node handles and parameters\<close>

text \<open>
  A \<open>ros::NodeHandle\<close>: its namespace and the parameter server it reads. \<open>getParam\<close>
  is a template; each instance is a partial map from resolved names to values of its type.
\<close>

record NodeHandle =
  getNamespace :: string
  ints :: "string \<rightharpoonup> int"
  doubles :: "string \<rightharpoonup> real"
  bools :: "string \<rightharpoonup> bool"
  strings :: "string \<rightharpoonup> string"
  string_maps :: "string \<rightharpoonup> (string \<times> string) list"

definition resolveName :: "NodeHandle \<Rightarrow> string \<Rightarrow> string" where
  "resolveName h key = getNamespace h @ ''/'' @ key"

text \<open>\<open>ros::NodeHandle(parent, name)\<close>.\<close>

definition child_nh :: "NodeHandle \<Rightarrow> string \<Rightarrow> NodeHandle" where
  "child_nh parent key = parent\<lparr>getNamespace := resolveName parent key\<rparr>"

definition getParam_int :: "NodeHandle \<Rightarrow> string \<Rightarrow> int option" where
  "getParam_int h key = ints h (resolveName h key)"

definition getParam_double :: "NodeHandle \<Rightarrow> string \<Rightarrow> real option" where
  "getParam_double h key = doubles h (resolveName h key)"

definition getParam_bool :: "NodeHandle \<Rightarrow> string \<Rightarrow> bool option" where
  "getParam_bool h key = bools h (resolveName h key)"

definition getParam_string :: "NodeHandle \<Rightarrow> string \<Rightarrow> string option" where
  "getParam_string h key = strings h (resolveName h key)"

definition getParam_string_map :: "NodeHandle \<Rightarrow> string \<Rightarrow> (string \<times> string) list option" where
  "getParam_string_map h key = string_maps h (resolveName h key)"

text \<open>\<open>nh.param(name, value, default)\<close>.\<close>

definition param_bool_default :: "NodeHandle \<Rightarrow> string \<Rightarrow> bool \<Rightarrow> bool" where
  "param_bool_default h key dflt = (case getParam_bool h key of Some v \<Rightarrow> v | None \<Rightarrow> dflt)"

subsection \<open>ParameterSetLoader (lines 118--152)\<close>

record ParameterSetLoader =
  loader_nh :: NodeHandle
  found :: "string list"
  not_found :: "string list"

definition ParameterSetLoader1 :: "NodeHandle \<Rightarrow> ParameterSetLoader" where
  "ParameterSetLoader1 h = \<lparr>loader_nh = h, found = [], not_found = []\<rparr>"

definition ParameterSetLoader2 :: "NodeHandle \<Rightarrow> string \<Rightarrow> ParameterSetLoader" where
  "ParameterSetLoader2 parent_nh key = \<lparr>loader_nh = child_nh parent_nh key, found = [], not_found = []\<rparr>"

text \<open>
  The body of \<open>param\<close>, given what \<open>nh_.getParam(name, value)\<close> returned. The typed
  instances below also return the value read, \<open>None\<close> when the caller's variable is left
  as it was (in \<open>init\<close>: uninitialised).
\<close>

definition param_result :: "ParameterSetLoader \<Rightarrow> string \<Rightarrow> bool \<Rightarrow> ParameterSetLoader" where
  "param_result l key ok =
     (if ok then l\<lparr>found := found l @ [key]\<rparr> else l\<lparr>not_found := not_found l @ [key]\<rparr>)"

definition param_int :: "ParameterSetLoader \<Rightarrow> string \<Rightarrow> ParameterSetLoader \<times> int option" where
  "param_int l key =
     (param_result l key (\<not> Option.is_none (getParam_int (loader_nh l) key)), getParam_int (loader_nh l) key)"

definition param_double :: "ParameterSetLoader \<Rightarrow> string \<Rightarrow> ParameterSetLoader \<times> real option" where
  "param_double l key =
     (param_result l key (\<not> Option.is_none (getParam_double (loader_nh l) key)), getParam_double (loader_nh l) key)"

definition param_bool :: "ParameterSetLoader \<Rightarrow> string \<Rightarrow> ParameterSetLoader \<times> bool option" where
  "param_bool l key =
     (param_result l key (\<not> Option.is_none (getParam_bool (loader_nh l) key)), getParam_bool (loader_nh l) key)"

text \<open>
  \<open>all_or_none\<close> returns its result, the value assigned to the reference \<open>found_all\<close>
  (\<open>None\<close>: not assigned) and the lines it logs with \<open>ROS_ERROR_STREAM\<close>.
\<close>

definition all_or_none :: "ParameterSetLoader \<Rightarrow> bool \<times> bool option \<times> string list" where
  "all_or_none l =
     (if length (not_found l) = 0 then (True, Some True, [])
      else if length (found l) = 0 then (True, Some False, [])
      else (False, None,
        [''Expected all or none parameter set: ('' @ getNamespace (loader_nh l) @ '')'']
        @ map (\<lambda>key. CHR 0x09 # ''Found: '' @ resolveName (loader_nh l) key) (found l)
        @ map (\<lambda>key. CHR 0x09 # ''Expected: '' @ resolveName (loader_nh l) key) (not_found l)))"

subsection \<open>The driver object\<close>

text \<open>
  Modelled from the spec: the enumeration \<open>OperationMode\<close> is declared in epos.h, which
  is not among the source files; the spec's data model gives its three values.
\<close>

datatype OperationMode = PROFILE_POSITION_MODE | PROFILE_VELOCITY_MODE | CURRENT_MODE

text \<open>
  The members of \<open>Epos\<close> that the embedded functions read or write. \<open>node_handle\<close> is
  the shared pointer \<open>node_handle_\<close> (\<open>None\<close>: null). Of \<open>power_supply_state_\<close> the two
  measured fields are kept.
\<close>

record Epos =
  name :: string
  config_nh :: NodeHandle
  valid :: bool
  has_init :: bool
  actuator_name :: string
  serial_number :: nat
  operation_mode_map :: "string \<rightharpoonup> OperationMode"
  operation_mode :: OperationMode
  rw_ros_units :: bool
  node_handle :: "int option"
  position :: double
  velocity :: double
  effort :: double
  current :: double
  statusword :: "16 word"
  position_cmd :: double
  velocity_cmd :: double
  torque_cmd :: double
  torque_constant :: real
  nominal_current :: real
  max_current :: real
  encoder_resolution :: int
  max_profile_velocity :: int
  halt_velocity :: bool
  power_supply_name :: string
  power_supply_voltage :: double
  power_supply_present :: bool

text \<open>
  Modelled from the spec: \<open>torqueToCurrent\<close> and \<open>currentToTorque\<close> are declared in
  epos.h, which is not among the source files. The spec gives
  current = torque / torque\_constant and torque = current \<times> torque\_constant.
\<close>

definition torqueToCurrent :: "Epos \<Rightarrow> double \<Rightarrow> double" where
  "torqueToCurrent s torque = ddiv torque (Fin (torque_constant s))"

definition currentToTorque :: "Epos \<Rightarrow> double \<Rightarrow> double" where
  "currentToTorque s cur = dmul cur (Fin (torque_constant s))"

subsection \<open>The device and the log\<close>

datatype vcs_call =
    CreateNodeHandle string string string nat
  | SetProtocolStackSettings int int
  | SetDisableState
  | SetEnableState
  | SetOperationMode OperationMode
  | SetObject nat nat int nat
  | GetObject nat nat nat
  | SetMotorType int
  | SetDcMotorParameter int int int
  | SetEcMotorParameter int int int int
  | SetSensorType int
  | SetIncEncoderParameter int bool
  | SetHallSensorParameter bool
  | SetSsiAbsEncoderParameter int int int bool
  | SetMaxFollowingError int
  | SetMaxProfileVelocity int
  | SetMaxAcceleration int
  | SetPositionRegulatorGain int int int
  | SetPositionRegulatorFeedForward int int
  | SetVelocityRegulatorGain int int
  | SetVelocityRegulatorFeedForward int int
  | SetCurrentRegulatorGain int int
  | SetPositionProfile int int int
  | EnablePositionWindow int int
  | SetVelocityProfile int int
  | EnableVelocityWindow int int
  | GetNbOfDeviceError
  | GetDeviceErrorCode int
  | ClearFault
  | GetPositionIs
  | GetVelocityIs
  | GetCurrentIs
  | HaltVelocityMovement
  | MoveWithVelocity int
  | MoveToPosition int bool bool
  | SetCurrentMust int

text \<open>
  A device answers a call, given the calls issued before it (oldest first): \<open>None\<close> when
  the call reports failure, \<open>Some v\<close> when it succeeds, with \<open>v\<close> the value it stores in
  its out-parameter (of no meaning for a call that has none). A call that fails leaves its
  out-parameter as it was.
\<close>

type_synonym device = "vcs_call list \<Rightarrow> vcs_call \<Rightarrow> int option"

text \<open>What the driver has done to the outside: the device calls and the \<open>ROS_ERROR\<close> lines.\<close>

record world =
  calls :: "vcs_call list"
  rosout :: "string list"

type_synonym ctx = "Epos \<times> world"

definition vcs :: "device \<Rightarrow> vcs_call \<Rightarrow> world \<Rightarrow> int option \<times> world" where
  "vcs dev c w = (dev (calls w) c, w\<lparr>calls := calls w @ [c]\<rparr>)"

definition ROS_ERROR :: "string \<Rightarrow> world \<Rightarrow> world" where
  "ROS_ERROR msg w = w\<lparr>rosout := rosout w @ [msg]\<rparr>"

text \<open>An \<open>unsigned char\<close> out-parameter.\<close>

definition as_uchar :: "int \<Rightarrow> nat" where
  "as_uchar v = nat (v mod 256)"

subsection \<open>The constructor (lines 10--110)\<close>

text \<open>
  The loop over \<open>operation_mode_map\<close> of lines 37--49. The constructor's log lines and
  the registration of handles and diagnostic tasks with the host are not modelled.
\<close>

fun load_operation_mode_map :: "(string \<times> string) list \<Rightarrow> Epos \<Rightarrow> Epos" where
  "load_operation_mode_map [] s = s"
| "load_operation_mode_map ((k, v) # rest) s =
     load_operation_mode_map rest
       (if v = ''profile_position'' then
          s\<lparr>operation_mode_map := (operation_mode_map s)(k \<mapsto> PROFILE_POSITION_MODE)\<rparr>
        else if v = ''profile_velocity'' then
          s\<lparr>operation_mode_map := (operation_mode_map s)(k \<mapsto> PROFILE_VELOCITY_MODE)\<rparr>
        else if v = ''current'' then
          s\<lparr>operation_mode_map := (operation_mode_map s)(k \<mapsto> CURRENT_MODE)\<rparr>
        else s\<lparr>valid := False\<rparr>)"

text \<open>
  \<open>raw\<close> is the object's storage before construction: a member that the constructor
  does not initialise (\<open>torque_cmd_\<close>, \<open>operation_mode_\<close>, the configuration that
  \<open>init\<close> sets later) keeps the indeterminate value found there. The first part is the
  member initialiser list of lines 16--18, with the members that are default-constructed
  (strings, the map, the handle).
\<close>

definition ctor_initialisers :: "Epos \<Rightarrow> string \<Rightarrow> NodeHandle \<Rightarrow> Epos" where
  "ctor_initialisers raw nm cfg =
     raw\<lparr>name := nm, config_nh := cfg, has_init := False,
         position := Fin 0, velocity := Fin 0, effort := Fin 0, current := Fin 0,
         statusword := 0, position_cmd := Fin 0, velocity_cmd := Fin 0,
         actuator_name := [], operation_mode_map := Map.empty, node_handle := None,
         power_supply_name := []\<rparr>"

text \<open>
  Lines 20--32. \<open>SerialNumberFromHex\<close> is a utility of the repository that is not among
  the source files; the constructor takes it as a parameter. The result is \<open>None\<close> when
  \<open>ROS_ASSERT\<close> fails.
\<close>

definition ctor_identity :: "(string \<Rightarrow> nat option) \<Rightarrow> Epos \<Rightarrow> Epos option" where
  "ctor_identity SerialNumberFromHex s =
     (let s1 = s\<lparr>valid := True\<rparr>;
          s2 = (case getParam_string (config_nh s) ''actuator_name'' of
                  Some a \<Rightarrow> s1\<lparr>actuator_name := a\<rparr>
                | None \<Rightarrow> s1\<lparr>valid := False\<rparr>)
      in case getParam_string (config_nh s) ''serial_number'' of
           None \<Rightarrow> Some (s2\<lparr>valid := False\<rparr>)
         | Some serial_number_str \<Rightarrow>
             (case SerialNumberFromHex serial_number_str of
                None \<Rightarrow> None
              | Some n \<Rightarrow> Some (s2\<lparr>serial_number := n\<rparr>)))"

text \<open>Lines 34--53: the operation mode map and the unit flag.\<close>

definition ctor_modes :: "Epos \<Rightarrow> Epos" where
  "ctor_modes s =
     (case getParam_string_map (config_nh s) ''operation_mode_map'' of
        Some str_map \<Rightarrow> load_operation_mode_map str_map s
      | None \<Rightarrow> s)
     \<lparr>rw_ros_units := param_bool_default (config_nh s) ''rw_ros_units'' False\<rparr>"

text \<open>Lines 68--93: the power supply.\<close>

definition ctor_power_supply :: "Epos \<Rightarrow> Epos" where
  "ctor_power_supply s =
     (let s1 = (case getParam_string (config_nh s) ''power_supply/name'' of
                  Some n \<Rightarrow> s\<lparr>power_supply_name := n\<rparr>
                | None \<Rightarrow> s)
      in if power_supply_name s1 \<noteq> []
         then s1\<lparr>power_supply_voltage := Fin 0, power_supply_present := False\<rparr>
         else s1)"

definition Epos_ctor ::
  "(string \<Rightarrow> nat option) \<Rightarrow> Epos \<Rightarrow> string \<Rightarrow> NodeHandle \<Rightarrow> Epos option" where
  "Epos_ctor SerialNumberFromHex raw nm cfg =
     map_option (\<lambda>s. ctor_power_supply (ctor_modes s))
       (ctor_identity SerialNumberFromHex (ctor_initialisers raw nm cfg))"

subsection \<open>Statements of \<open>init\<close> and the macros (lines 154--184)\<close>

text \<open>
  A statement of \<open>init\<close> either goes on to the next statement or makes \<open>init\<close> return
  false, in both cases with the driver and the world as they are at that point. It has no
  result (\<open>None\<close>) when it never ends or when C++ leaves its behaviour undefined.
\<close>

datatype 'a flow = Continue 'a | ReturnFalse 'a

type_synonym step = "ctx \<Rightarrow> ctx flow option"

fun run_steps :: "step list \<Rightarrow> step" where
  "run_steps [] x = Some (Continue x)"
| "run_steps (f # fs) x =
     (case f x of
        None \<Rightarrow> None
      | Some (ReturnFalse y) \<Rightarrow> Some (ReturnFalse y)
      | Some (Continue y) \<Rightarrow> run_steps fs y)"

text \<open>The macro \<open>VCS(func, ...)\<close>.\<close>

definition VCS :: "device \<Rightarrow> string \<Rightarrow> vcs_call \<Rightarrow> step" where
  "VCS dev func c x =
     (case x of (s, w) \<Rightarrow>
        (case vcs dev c w of
           (None, w') \<Rightarrow> Some (ReturnFalse (s, ROS_ERROR (''Failed to '' @ func) w'))
         | (Some v, w') \<Rightarrow> Some (Continue (s, w'))))"

text \<open>
  The macro \<open>VCS_SET_OBJECT\<close>: its body is closed by \<open>while (true)\<close>, so the call is
  repeated for as long as it succeeds, and the only way out is the \<open>return false\<close> taken
  when it fails. The result is the world at that return.
\<close>

partial_function (option) VCS_SET_OBJECT :: "device \<Rightarrow> vcs_call \<Rightarrow> string \<Rightarrow> world \<Rightarrow> world option" where
  "VCS_SET_OBJECT dev c msg w =
     (if fst (vcs dev c w) = None then Some (ROS_ERROR msg (snd (vcs dev c w)))
      else VCS_SET_OBJECT dev c msg (snd (vcs dev c w)))"

text \<open>
  \<open>SET_FAULT_REACTION_OPTION(val)\<close> (lines 224--228): a second \<open>do ... while (true)\<close>
  around \<open>VCS_SET_OBJECT\<close>, whose condition is never reached.
\<close>

definition SET_FAULT_REACTION_OPTION :: "device \<Rightarrow> int \<Rightarrow> step" where
  "SET_FAULT_REACTION_OPTION dev val x =
     (case x of (s, w) \<Rightarrow>
        map_option (\<lambda>w'. ReturnFalse (s, w'))
          (VCS_SET_OBJECT dev (SetObject 0x605E 0x00 val 2)
             ''Failed to SetObject(0x605e, 0000, len: 2)'' w))"

definition VCS_FROM_SINGLE_PARAM_REQUIRED ::
  "device \<Rightarrow> NodeHandle \<Rightarrow> string \<Rightarrow> string \<Rightarrow> (int \<Rightarrow> vcs_call) \<Rightarrow> step" where
  "VCS_FROM_SINGLE_PARAM_REQUIRED dev h key func mk x =
     (case x of (s, w) \<Rightarrow>
        (case getParam_int h key of
           None \<Rightarrow> Some (ReturnFalse (s, ROS_ERROR (resolveName h key @ '' not specified'') w))
         | Some v \<Rightarrow> VCS dev func (mk v) (s, w)))"

definition VCS_FROM_SINGLE_PARAM_OPTIONAL ::
  "device \<Rightarrow> NodeHandle \<Rightarrow> string \<Rightarrow> string \<Rightarrow> (int \<Rightarrow> vcs_call) \<Rightarrow> step" where
  "VCS_FROM_SINGLE_PARAM_OPTIONAL dev h key func mk x =
     (case getParam_int h key of
        None \<Rightarrow> Some (Continue x)
      | Some v \<Rightarrow> VCS dev func (mk v) x)"

text \<open>
  The pattern \<open>if (!loader.all_or_none(flag)) return false; if (flag) { body }\<close>, given
  what \<open>all_or_none\<close> returned.
\<close>

definition group_step :: "bool \<times> bool option \<times> string list \<Rightarrow> step \<Rightarrow> step" where
  "group_step r body x =
     (case r of
        (False, flag, lines) \<Rightarrow>
          Some (ReturnFalse (fst x, (snd x)\<lparr>rosout := rosout (snd x) @ lines\<rparr>))
      | (True, flag, lines) \<Rightarrow> (if flag = Some True then body x else Some (Continue x)))"

text \<open>\<open>-n\<close> and \<open>1 << n\<close> on \<open>int\<close>.\<close>

definition int_neg :: "int \<Rightarrow> int option" where
  "int_neg n = (if n = INT_MIN then None else Some (- n))"

definition shl1 :: "int \<Rightarrow> int option" where
  "shl1 n = (if 0 \<le> n \<and> n < 31 then Some (2 ^ nat n) else None)"

subsection \<open>\<open>Epos::init\<close> (lines 186--587), statement by statement\<close>

definition init_valid :: step where
  "init_valid x =
     (case x of (s, w) \<Rightarrow>
        (if \<not> valid s then
           Some (ReturnFalse (s, ROS_ERROR (''Not Initializing: 0x'' @ hex (serial_number s)
                                           @ '', initial construction failed'') w))
         else Some (Continue (s, w))))"

definition init_create_node_handle :: "device \<Rightarrow> step" where
  "init_create_node_handle dev x =
     (case x of (s, w) \<Rightarrow>
        (case vcs dev (CreateNodeHandle ''EPOS4'' ''MAXON SERIAL V2'' ''USB'' (serial_number s)) w of
           (None, w') \<Rightarrow> Some (ReturnFalse (s\<lparr>node_handle := None\<rparr>, ROS_ERROR ''Could not find motor'' w'))
         | (Some h, w') \<Rightarrow> Some (Continue (s\<lparr>node_handle := Some h\<rparr>, w'))))"

definition init_protocol_stack :: "device \<Rightarrow> step" where
  "init_protocol_stack dev = VCS dev ''SetProtocolStackSettings'' (SetProtocolStackSettings 1000000 500)"

definition init_disable :: "device \<Rightarrow> step" where
  "init_disable dev = VCS dev ''SetDisableState'' SetDisableState"

definition init_initial_mode :: "device \<Rightarrow> step" where
  "init_initial_mode dev x =
     (case x of (s, w) \<Rightarrow>
        (case operation_mode_map s [] of
           Some initial_mode \<Rightarrow> VCS dev ''SetOperationMode'' (SetOperationMode initial_mode) (s, w)
         | None \<Rightarrow> Some (Continue (s, w))))"

definition init_fault_reaction :: "device \<Rightarrow> step" where
  "init_fault_reaction dev x =
     (case x of (s, w) \<Rightarrow>
        (case getParam_string (config_nh s) ''fault_reaction_option'' of
           None \<Rightarrow> Some (Continue (s, w))
         | Some fault_reaction_str \<Rightarrow>
             (if fault_reaction_str = ''signal_only'' then SET_FAULT_REACTION_OPTION dev (- 1) (s, w)
              else if fault_reaction_str = ''disable_drive'' then SET_FAULT_REACTION_OPTION dev 0 (s, w)
              else if fault_reaction_str = ''slow_down_ramp'' then SET_FAULT_REACTION_OPTION dev 1 (s, w)
              else if fault_reaction_str = ''slow_down_quickstop'' then SET_FAULT_REACTION_OPTION dev 2 (s, w)
              else Some (ReturnFalse (s, ROS_ERROR (fault_reaction_str
                                          @ '' is not a valid fault reaction option'') w)))))"

definition init_torque_constant :: step where
  "init_torque_constant x =
     (case x of (s, w) \<Rightarrow>
        (case getParam_double (config_nh s) ''torque_constant'' of
           Some k \<Rightarrow> Some (Continue (s\<lparr>torque_constant := k\<rparr>, w))
         | None \<Rightarrow> Some (Continue (s\<lparr>torque_constant := 1.0\<rparr>, w))))"

definition init_motor_type :: "device \<Rightarrow> step" where
  "init_motor_type dev x =
     (case x of (s, w) \<Rightarrow>
        VCS_FROM_SINGLE_PARAM_REQUIRED dev (child_nh (config_nh s) ''motor'') ''type''
          ''SetMotorType'' SetMotorType (s\<lparr>nominal_current := 0, max_current := 0\<rparr>, w))"

definition init_dc_motor :: "device \<Rightarrow> step" where
  "init_dc_motor dev x =
     (let motor_nh = child_nh (config_nh (fst x)) ''motor'';
          (l1, nominal_current_l) = param_double (ParameterSetLoader2 motor_nh ''dc_motor'') ''nominal_current'';
          (l2, max_output_current) = param_double l1 ''max_output_current'';
          (l3, thermal_time_constant) = param_double l2 ''thermal_time_constant''
      in group_step (all_or_none l3)
           (\<lambda>(s, w).
              case (nominal_current_l, max_output_current, thermal_time_constant) of
                (Some a, Some b, Some c) \<Rightarrow>
                  (case (double_to_int (Fin (1000 * a)), double_to_int (Fin (1000 * b)),
                         double_to_int (Fin (10 * c))) of
                     (Some a', Some b', Some c') \<Rightarrow>
                       VCS dev ''SetDcMotorParameter'' (SetDcMotorParameter a' b' c')
                         (s\<lparr>nominal_current := a, max_current := b\<rparr>, w)
                   | _ \<Rightarrow> None)
              | _ \<Rightarrow> None) x)"

definition init_ec_motor :: "device \<Rightarrow> step" where
  "init_ec_motor dev x =
     (let motor_nh = child_nh (config_nh (fst x)) ''motor'';
          (l1, nominal_current_l) = param_double (ParameterSetLoader2 motor_nh ''ec_motor'') ''nominal_current'';
          (l2, max_output_current) = param_double l1 ''max_output_current'';
          (l3, thermal_time_constant) = param_double l2 ''thermal_time_constant'';
          (l4, number_of_pole_pairs) = param_int l3 ''number_of_pole_pairs''
      in group_step (all_or_none l4)
           (\<lambda>(s, w).
              case (nominal_current_l, max_output_current, thermal_time_constant, number_of_pole_pairs) of
                (Some a, Some b, Some c, Some n) \<Rightarrow>
                  (case (double_to_int (Fin (1000 * a)), double_to_int (Fin (1000 * b)),
                         double_to_int (Fin (10 * c))) of
                     (Some a', Some b', Some c') \<Rightarrow>
                       VCS dev ''SetEcMotorParameter'' (SetEcMotorParameter a' b' c' n)
                         (s\<lparr>nominal_current := a, max_current := b\<rparr>, w)
                   | _ \<Rightarrow> None)
              | _ \<Rightarrow> None) x)"

definition init_max_speed :: "device \<Rightarrow> step" where
  "init_max_speed dev x =
     (case x of (s, w) \<Rightarrow>
        (case getParam_double (child_nh (config_nh s) ''motor'') ''max_speed'' of
           None \<Rightarrow> Some (Continue (s, w))
         | Some max_speed \<Rightarrow>
             (case double_to_uint32 max_speed of
                None \<Rightarrow> None
              | Some data \<Rightarrow>
                  map_option (\<lambda>w'. ReturnFalse (s, w'))
                    (VCS_SET_OBJECT dev (SetObject 0x6080 0x00 data 4)
                       ''Failed to SetObject(0x6080, 0000, len: 4)'' w))))"

definition init_sensor_type :: "device \<Rightarrow> step" where
  "init_sensor_type dev x =
     (case x of (s, w) \<Rightarrow>
        VCS_FROM_SINGLE_PARAM_REQUIRED dev (child_nh (config_nh s) ''sensor'') ''type''
          ''SetSensorType'' SetSensorType (s\<lparr>encoder_resolution := 0\<rparr>, w))"

definition init_incremental_encoder :: "device \<Rightarrow> step" where
  "init_incremental_encoder dev x =
     (let sensor_nh = child_nh (config_nh (fst x)) ''sensor'';
          (l1, resolution) = param_int (ParameterSetLoader2 sensor_nh ''incremental_encoder'') ''resolution'';
          (l2, inverted_polarity) = param_bool l1 ''inverted_polarity''
      in group_step (all_or_none l2)
           (\<lambda>y. case (resolution, inverted_polarity) of
                (Some r, Some pol) \<Rightarrow>
                  (case VCS dev ''SetIncEncoderParameter'' (SetIncEncoderParameter r pol) y of
                     Some (Continue (s, w)) \<Rightarrow>
                       (if pol then map_option (\<lambda>n. Continue (s\<lparr>encoder_resolution := n\<rparr>, w)) (int_neg r)
                        else Some (Continue (s\<lparr>encoder_resolution := r\<rparr>, w)))
                   | other \<Rightarrow> other)
              | _ \<Rightarrow> None) x)"

definition init_hall_sensor :: "device \<Rightarrow> step" where
  "init_hall_sensor dev x =
     (let sensor_nh = child_nh (config_nh (fst x)) ''sensor'';
          (l1, inverted_polarity) = param_bool (ParameterSetLoader2 sensor_nh ''hall_sensor'') ''inverted_polarity''
      in group_step (all_or_none l1)
           (\<lambda>y. case inverted_polarity of
                Some pol \<Rightarrow> VCS dev ''SetHallSensorParameter'' (SetHallSensorParameter pol) y
              | None \<Rightarrow> None) x)"

definition init_ssi_absolute_encoder :: "device \<Rightarrow> step" where
  "init_ssi_absolute_encoder dev x =
     (let sensor_nh = child_nh (config_nh (fst x)) ''sensor'';
          (l1, data_rate) = param_int (ParameterSetLoader2 sensor_nh ''ssi_absolute_encoder'') ''data_rate'';
          (l2, number_of_multiturn_bits) = param_int l1 ''number_of_multiturn_bits'';
          (l3, number_of_singleturn_bits) = param_int l2 ''number_of_singleturn_bits'';
          (l4, inverted_polarity) = param_bool l3 ''inverted_polarity''
      in group_step (all_or_none l4)
           (\<lambda>y. case (data_rate, number_of_multiturn_bits, number_of_singleturn_bits, inverted_polarity) of
                (Some r, Some m, Some n, Some pol) \<Rightarrow>
                  (case VCS dev ''SetSsiAbsEncoderParameter'' (SetSsiAbsEncoderParameter r m n pol) y of
                     Some (Continue (s, w)) \<Rightarrow>
                       (if pol then
                          map_option (\<lambda>e. Continue (s\<lparr>encoder_resolution := e\<rparr>, w))
                            (Option.bind (shl1 n) int_neg)
                        else map_option (\<lambda>e. Continue (s\<lparr>encoder_resolution := e\<rparr>, w)) (shl1 n))
                   | other \<Rightarrow> other)
              | _ \<Rightarrow> None) x)"

definition init_encoder_check :: step where
  "init_encoder_check x =
     (case x of (s, w) \<Rightarrow>
        (if encoder_resolution s = 0 then Some (ReturnFalse (s, ROS_ERROR ''No encoder resolution'' w))
         else Some (Continue (s, w))))"

definition init_safety :: "device \<Rightarrow> step" where
  "init_safety dev x =
     (let safety_nh = child_nh (config_nh (fst x)) ''safety'' in
      case run_steps
             [VCS_FROM_SINGLE_PARAM_OPTIONAL dev safety_nh ''max_following_error''
                ''SetMaxFollowingError'' SetMaxFollowingError,
              VCS_FROM_SINGLE_PARAM_OPTIONAL dev safety_nh ''max_profile_velocity''
                ''SetMaxProfileVelocity'' SetMaxProfileVelocity,
              VCS_FROM_SINGLE_PARAM_OPTIONAL dev safety_nh ''max_acceleration''
                ''SetMaxAcceleration'' SetMaxAcceleration] x of
        Some (Continue (s, w)) \<Rightarrow>
          Some (Continue
            (s\<lparr>max_profile_velocity :=
                 (case getParam_int safety_nh ''max_profile_velocity'' of
                    Some v \<Rightarrow> v
                  | None \<Rightarrow> - 1)\<rparr>, w))
      | other \<Rightarrow> other)"

definition init_position_regulator_gain :: "device \<Rightarrow> step" where
  "init_position_regulator_gain dev x =
     (let position_regulator_nh = child_nh (config_nh (fst x)) ''position_regulator'';
          (l1, p) = param_int (ParameterSetLoader2 position_regulator_nh ''gain'') ''p'';
          (l2, i) = param_int l1 ''i'';
          (l3, d) = param_int l2 ''d''
      in group_step (all_or_none l3)
           (\<lambda>y. case (p, i, d) of
                (Some p', Some i', Some d') \<Rightarrow>
                  VCS dev ''SetPositionRegulatorGain'' (SetPositionRegulatorGain p' i' d') y
              | _ \<Rightarrow> None) x)"

definition init_position_regulator_feed_forward :: "device \<Rightarrow> step" where
  "init_position_regulator_feed_forward dev x =
     (let position_regulator_nh = child_nh (config_nh (fst x)) ''position_regulator'';
          (l1, velocity_l) = param_int (ParameterSetLoader2 position_regulator_nh ''feed_forward'') ''velocity'';
          (l2, acceleration) = param_int l1 ''acceleration''
      in group_step (all_or_none l2)
           (\<lambda>y. case (velocity_l, acceleration) of
                (Some v, Some a) \<Rightarrow>
                  VCS dev ''SetPositionRegulatorFeedForward'' (SetPositionRegulatorFeedForward v a) y
              | _ \<Rightarrow> None) x)"

definition init_velocity_regulator_gain :: "device \<Rightarrow> step" where
  "init_velocity_regulator_gain dev x =
     (let velocity_regulator_nh = child_nh (config_nh (fst x)) ''velocity_regulator'';
          (l1, p) = param_int (ParameterSetLoader2 velocity_regulator_nh ''gain'') ''p'';
          (l2, i) = param_int l1 ''i''
      in group_step (all_or_none l2)
           (\<lambda>y. case (p, i) of
                (Some p', Some i') \<Rightarrow>
                  VCS dev ''SetVelocityRegulatorGain'' (SetVelocityRegulatorGain p' i') y
              | _ \<Rightarrow> None) x)"

definition init_velocity_regulator_feed_forward :: "device \<Rightarrow> step" where
  "init_velocity_regulator_feed_forward dev x =
     (let velocity_regulator_nh = child_nh (config_nh (fst x)) ''velocity_regulator'';
          (l1, velocity_l) = param_int (ParameterSetLoader2 velocity_regulator_nh ''feed_forward'') ''velocity'';
          (l2, acceleration) = param_int l1 ''acceleration''
      in group_step (all_or_none l2)
           (\<lambda>y. case (velocity_l, acceleration) of
                (Some v, Some a) \<Rightarrow>
                  VCS dev ''SetVelocityRegulatorFeedForward'' (SetVelocityRegulatorFeedForward v a) y
              | _ \<Rightarrow> None) x)"

definition init_current_regulator_gain :: "device \<Rightarrow> step" where
  "init_current_regulator_gain dev x =
     (let current_regulator_nh = child_nh (config_nh (fst x)) ''current_regulator'';
          (l1, p) = param_int (ParameterSetLoader2 current_regulator_nh ''gain'') ''p'';
          (l2, i) = param_int l1 ''i''
      in group_step (all_or_none l2)
           (\<lambda>y. case (p, i) of
                (Some p', Some i') \<Rightarrow>
                  VCS dev ''SetCurrentRegulatorGain'' (SetCurrentRegulatorGain p' i') y
              | _ \<Rightarrow> None) x)"

definition init_position_profile :: "device \<Rightarrow> step" where
  "init_position_profile dev x =
     (let position_profile_nh = child_nh (config_nh (fst x)) ''position_profile'';
          (l1, velocity_l) = param_int (ParameterSetLoader1 position_profile_nh) ''velocity'';
          (l2, acceleration) = param_int l1 ''acceleration'';
          (l3, deceleration) = param_int l2 ''deceleration''
      in group_step (all_or_none l3)
           (\<lambda>y. case (velocity_l, acceleration, deceleration) of
                (Some v, Some a, Some d) \<Rightarrow>
                  VCS dev ''SetPositionProfile'' (SetPositionProfile v a d) y
              | _ \<Rightarrow> None) x)"

definition init_position_profile_window :: "device \<Rightarrow> step" where
  "init_position_profile_window dev x =
     (let position_profile_nh = child_nh (config_nh (fst x)) ''position_profile'';
          (l1, window) = param_int (ParameterSetLoader2 position_profile_nh ''window'') ''window'';
          (l2, time) = param_double l1 ''time''
      in group_step (all_or_none l2)
           (\<lambda>y. case (window, time) of
                (Some win, Some t) \<Rightarrow>
                  (case double_to_int (Fin (1000 * t)) of
                     Some ms \<Rightarrow> VCS dev ''EnablePositionWindow'' (EnablePositionWindow win ms) y
                   | None \<Rightarrow> None)
              | _ \<Rightarrow> None) x)"

definition init_velocity_profile :: "device \<Rightarrow> step" where
  "init_velocity_profile dev x =
     (let velocity_profile_nh = child_nh (config_nh (fst x)) ''velocity_profile'';
          (l1, acceleration) = param_int (ParameterSetLoader1 velocity_profile_nh) ''acceleration'';
          (l2, deceleration) = param_int l1 ''deceleration''
      in group_step (all_or_none l2)
           (\<lambda>y. case (acceleration, deceleration) of
                (Some a, Some d) \<Rightarrow>
                  VCS dev ''SetVelocityProfile'' (SetVelocityProfile a d) y
              | _ \<Rightarrow> None) x)"

definition init_velocity_profile_window :: "device \<Rightarrow> step" where
  "init_velocity_profile_window dev x =
     (let velocity_profile_nh = child_nh (config_nh (fst x)) ''velocity_profile'';
          (l1, window) = param_int (ParameterSetLoader2 velocity_profile_nh ''window'') ''window'';
          (l2, time) = param_double l1 ''time''
      in group_step (all_or_none l2)
           (\<lambda>y. case (window, time) of
                (Some win, Some t) \<Rightarrow>
                  (case double_to_int (Fin (1000 * t)) of
                     Some ms \<Rightarrow> VCS dev ''EnableVelocityWindow'' (EnableVelocityWindow win ms) y
                   | None \<Rightarrow> None)
              | _ \<Rightarrow> None) x)"

text \<open>
  The loop of lines 547--553 over the device's error codes: the result is false when a
  read fails (\<open>init\<close> then returns false). Its \<open>ROS_WARN\<close> lines are not kept.
\<close>

function error_code_loop :: "device \<Rightarrow> nat \<Rightarrow> nat \<Rightarrow> world \<Rightarrow> bool \<times> world" where
  "error_code_loop dev i num_errors w =
     (if i \<le> num_errors then
        (case vcs dev (GetDeviceErrorCode (int i)) w of
           (None, w') \<Rightarrow> (False, w')
         | (Some error_number, w') \<Rightarrow> error_code_loop dev (i + 1) num_errors w')
      else (True, w))"
  by pat_completeness auto
termination
  by (relation "measure (\<lambda>(dev, i, num_errors, w). num_errors + 1 - i)") auto

declare error_code_loop.simps [simp del]

text \<open>Lines 542--569: the faults are queried and, when the configuration allows it, cleared.\<close>

definition init_query_faults :: "device \<Rightarrow> step" where
  "init_query_faults dev x =
     (case x of (s, w) \<Rightarrow>
        (case vcs dev GetNbOfDeviceError w of
           (None, w1) \<Rightarrow> Some (ReturnFalse (s, w1))
         | (Some n, w1) \<Rightarrow>
             (let num_errors = as_uchar n in
              case error_code_loop dev 1 num_errors w1 of
                (False, w2) \<Rightarrow> Some (ReturnFalse (s, w2))
              | (True, w2) \<Rightarrow>
                  (let clear_faults = param_bool_default (config_nh s) ''clear_faults'' False in
                   if num_errors > 0 then
                     (if clear_faults then
                        (case vcs dev ClearFault w2 of
                           (None, w3) \<Rightarrow> Some (ReturnFalse (s, ROS_ERROR ''Could not clear faults'' w3))
                         | (Some v, w3) \<Rightarrow> Some (Continue (s, w3)))
                      else Some (ReturnFalse (s, ROS_ERROR ''Not clearing faults, but faults exist'' w2)))
                   else Some (Continue (s, w2))))))"

text \<open>Lines 571--577: the faults are counted again, whatever happened before.\<close>

definition init_verify_faults :: "device \<Rightarrow> step" where
  "init_verify_faults dev x =
     (case x of (s, w) \<Rightarrow>
        (case vcs dev GetNbOfDeviceError w of
           (None, w1) \<Rightarrow> Some (ReturnFalse (s, w1))
         | (Some n, w1) \<Rightarrow>
             (if as_uchar n > 0 then Some (ReturnFalse (s, ROS_ERROR ''Not all faults were cleared'' w1))
              else Some (Continue (s, w1)))))"

text \<open>Lines 579--585: the drive is enabled and the driver marked as initialised.\<close>

definition init_enable :: "device \<Rightarrow> step" where
  "init_enable dev x =
     (case x of (s, w) \<Rightarrow>
        (let s1 = s\<lparr>halt_velocity := param_bool_default (config_nh s) ''halt_velocity'' False\<rparr> in
         case vcs dev SetEnableState w of
           (None, w1) \<Rightarrow> Some (ReturnFalse (s1, w1))
         | (Some v, w1) \<Rightarrow> Some (Continue (s1\<lparr>has_init := True\<rparr>, w1))))"

text \<open>The statements of \<open>init\<close> up to line 540, in the order of the source.\<close>

definition init_configure :: "device \<Rightarrow> step list" where
  "init_configure dev =
     [init_valid, init_create_node_handle dev, init_protocol_stack dev, init_disable dev,
      init_initial_mode dev, init_fault_reaction dev, init_torque_constant,
      init_motor_type dev, init_dc_motor dev, init_ec_motor dev, init_max_speed dev,
      init_sensor_type dev, init_incremental_encoder dev, init_hall_sensor dev,
      init_ssi_absolute_encoder dev, init_encoder_check,
      init_safety dev,
      init_position_regulator_gain dev, init_position_regulator_feed_forward dev,
      init_velocity_regulator_gain dev, init_velocity_regulator_feed_forward dev,
      init_current_regulator_gain dev,
      init_position_profile dev, init_position_profile_window dev,
      init_velocity_profile dev, init_velocity_profile_window dev]"

text \<open>
  \<open>init\<close> returns its result with the driver and the world it leaves; \<open>None\<close> when it
  does not return.
\<close>

definition Epos_init :: "device \<Rightarrow> ctx \<Rightarrow> (bool \<times> ctx) option" where
  "Epos_init dev x =
     (case run_steps (init_configure dev
                      @ [init_query_faults dev, init_verify_faults dev, init_enable dev]) x of
        None \<Rightarrow> None
      | Some (ReturnFalse y) \<Rightarrow> Some (False, y)
      | Some (Continue y) \<Rightarrow> Some (True, y))"

subsection \<open>\<open>Epos::doSwitch\<close> (lines 589--603)\<close>

text \<open>
  Of a \<open>ControllerInfo\<close> only the name is read, so the two lists are lists of names. No
  member of the driver is assigned.
\<close>

fun doSwitch_loop :: "device \<Rightarrow> Epos \<Rightarrow> string list \<Rightarrow> world \<Rightarrow> world option" where
  "doSwitch_loop dev s [] w = Some w"
| "doSwitch_loop dev s (starting_controller # rest) w =
     (case operation_mode_map s starting_controller of
        None \<Rightarrow> doSwitch_loop dev s rest w
      | Some mode_to_switch \<Rightarrow>
          (case node_handle s of
             None \<Rightarrow> None
           | Some h \<Rightarrow> doSwitch_loop dev s rest (snd (vcs dev (SetOperationMode mode_to_switch) w))))"

definition Epos_doSwitch :: "device \<Rightarrow> string list \<Rightarrow> string list \<Rightarrow> ctx \<Rightarrow> ctx option" where
  "Epos_doSwitch dev start_list stop_list x =
     (case x of (s, w) \<Rightarrow> map_option (\<lambda>w'. (s, w')) (doSwitch_loop dev s start_list w))"

subsection \<open>\<open>Epos::read\<close> (lines 605--649)\<close>

text \<open>
  \<open>raw\<close> holds what the uninitialised locals \<open>position_raw\<close>, \<open>velocity_raw\<close> and
  \<open>current_raw\<close> contain when \<open>read\<close> is entered. The results of the device calls are
  not inspected by the source; a call that fails leaves its out-parameter as it was.
  \<open>statusword_\<close> is itself the out-parameter of the first call.
\<close>

definition Epos_read :: "device \<Rightarrow> int \<times> int \<times> int \<Rightarrow> ctx \<Rightarrow> ctx option" where
  "Epos_read dev raw x =
     (case x of (s, w) \<Rightarrow>
        if \<not> has_init s then Some (s, w)
        else
          (case node_handle s of
             None \<Rightarrow> None
           | Some h \<Rightarrow>
               (case raw of (position_raw0, velocity_raw0, current_raw0) \<Rightarrow>
                  (let (r0, w0) = vcs dev (GetObject 0x6041 0x00 2) w;
                       s0 = (case r0 of Some v \<Rightarrow> s\<lparr>statusword := word_of_int v\<rparr> | None \<Rightarrow> s);
                       (r1, w1) = vcs dev GetPositionIs w0;
                       position_raw = (case r1 of Some v \<Rightarrow> v | None \<Rightarrow> position_raw0);
                       (r2, w2) = vcs dev GetVelocityIs w1;
                       velocity_raw = (case r2 of Some v \<Rightarrow> v | None \<Rightarrow> velocity_raw0);
                       (r3, w3) = vcs dev GetCurrentIs w2;
                       current_raw = (case r3 of Some v \<Rightarrow> v | None \<Rightarrow> current_raw0);
                       s1 = (if rw_ros_units s0 then
                               (let cur = ddiv (Fin (of_int current_raw)) (Fin 1000) in
                                s0\<lparr>position := ddiv (dmul (Fin (of_int position_raw)) (Fin pi))
                                                  (dmul (Fin 2) (Fin (of_int (encoder_resolution s0)))),
                                    velocity := ddiv (dmul (Fin (of_int velocity_raw)) (Fin pi)) (Fin 30),
                                    current := cur,
                                    effort := ddiv (currentToTorque s0 cur) (Fin 1000)\<rparr>)
                             else
                               (let cur = ddiv (Fin (of_int current_raw)) (Fin 1000) in
                                s0\<lparr>position := Fin (of_int position_raw),
                                    velocity := Fin (of_int velocity_raw),
                                    current := cur,
                                    effort := currentToTorque s0 cur\<rparr>))
                   in if power_supply_name s1 \<noteq> [] then
                        (let (r4, w4) = vcs dev (GetObject 0x2200 0x01 2) w3;
                             voltage10x = (case r4 of Some v \<Rightarrow> uint (word_of_int v :: 16 word) | None \<Rightarrow> 0)
                         in Some (s1\<lparr>power_supply_voltage := ddiv (Fin (of_int voltage10x)) (Fin 10),
                                     power_supply_present := (voltage10x > 0)\<rparr>, w4))
                      else Some (s1, w3)))))"

subsection \<open>\<open>Epos::write\<close> (lines 651--704)\<close>

text \<open>The clamp of lines 666--671.\<close>

definition clamp_velocity :: "int \<Rightarrow> int \<Rightarrow> int" where
  "clamp_velocity limit cmd =
     (if limit \<ge> 0 then
        (let c1 = (if cmd < - limit then - limit else cmd)
         in if c1 > limit then limit else c1)
      else cmd)"

definition Epos_write :: "device \<Rightarrow> ctx \<Rightarrow> ctx option" where
  "Epos_write dev x =
     (case x of (s, w) \<Rightarrow>
        if \<not> has_init s then Some (s, w)
        else if operation_mode s = PROFILE_VELOCITY_MODE then
          (if isnan (velocity_cmd s) then Some (s, w)
           else
             (case (if rw_ros_units s
                    then double_to_int (ddiv (dmul (velocity_cmd s) (Fin 30)) (Fin pi))
                    else double_to_int (velocity_cmd s)) of
                None \<Rightarrow> None
              | Some cmd0 \<Rightarrow>
                  (let cmd = clamp_velocity (max_profile_velocity s) cmd0 in
                   case node_handle s of
                     None \<Rightarrow> None
                   | Some h \<Rightarrow>
                       (if cmd = 0 \<and> halt_velocity s
                        then Some (s, snd (vcs dev HaltVelocityMovement w))
                        else Some (s, snd (vcs dev (MoveWithVelocity cmd) w))))))
        else if operation_mode s = PROFILE_POSITION_MODE then
          (if isnan (position_cmd s) then Some (s, w)
           else
             (case (if rw_ros_units s
                    then double_to_int
                           (ddiv (dmul (dmul (position_cmd s) (Fin 2)) (Fin (of_int (encoder_resolution s))))
                              (Fin pi))
                    else double_to_int (position_cmd s)) of
                None \<Rightarrow> None
              | Some cmd \<Rightarrow>
                  (case node_handle s of
                     None \<Rightarrow> None
                   | Some h \<Rightarrow> Some (s, snd (vcs dev (MoveToPosition cmd True True) w)))))
        else if operation_mode s = CURRENT_MODE then
          (if isnan (torque_cmd s) then Some (s, w)
           else
             (case (if rw_ros_units s
                    then double_to_int (dmul (torqueToCurrent s (torque_cmd s)) (Fin 1000))
                    else double_to_int (torqueToCurrent s (torque_cmd s))) of
                None \<Rightarrow> None
              | Some cmd \<Rightarrow>
                  (case node_handle s of
                     None \<Rightarrow> None
                   | Some h \<Rightarrow> Some (s, snd (vcs dev (SetCurrentMust cmd) w)))))
        else Some (s, w))"

subsection \<open>\<open>Epos::buildMotorStatus\<close> (lines 708--786)\<close>

text \<open>
  The status wrapper of the host's diagnostics library, as far as the driver uses it: the
  summary (a level and a message) and the key-value entries. \<open>summary\<close> sets the summary
  and \<open>mergeSummary\<close> combines a new one with it, keeping the higher level.
\<close>

record DiagnosticStatusWrapper =
  level :: nat
  message :: string
  key_values :: "(string \<times> string) list"

definition OK :: nat where
  "OK = 0"

definition WARN :: nat where
  "WARN = 1"

definition ERROR :: nat where
  "ERROR = 2"

definition summary :: "nat \<Rightarrow> string \<Rightarrow> DiagnosticStatusWrapper \<Rightarrow> DiagnosticStatusWrapper" where
  "summary lvl msg stat = stat\<lparr>level := lvl, message := msg\<rparr>"

definition mergeSummary :: "nat \<Rightarrow> string \<Rightarrow> DiagnosticStatusWrapper \<Rightarrow> DiagnosticStatusWrapper" where
  "mergeSummary lvl msg stat =
     (let stat1 =
        (if lvl > 0 \<and> level stat > 0 then
           stat\<lparr>message := (if message stat \<noteq> [] then message stat @ ''; '' else message stat) @ msg\<rparr>
         else if lvl > level stat then stat\<lparr>message := msg\<rparr>
         else stat)
      in if lvl > level stat1 then stat1\<lparr>level := lvl\<rparr> else stat1)"

definition add_value :: "string \<Rightarrow> string \<Rightarrow> DiagnosticStatusWrapper \<Rightarrow> DiagnosticStatusWrapper" where
  "add_value key val stat = stat\<lparr>key_values := key_values stat @ [(key, val)]\<rparr>"

definition add_bool :: "string \<Rightarrow> bool \<Rightarrow> DiagnosticStatusWrapper \<Rightarrow> DiagnosticStatusWrapper" where
  "add_bool key b stat = add_value key (if b then ''True'' else ''False'') stat"

definition STATUSWORD :: "nat \<Rightarrow> 16 word \<Rightarrow> bool" where
  "STATUSWORD b v = ((drop_bit b v AND 1) \<noteq> 0)"

definition READY_TO_SWITCH_ON :: nat where
  "READY_TO_SWITCH_ON = 0"

definition SWITCHED_ON :: nat where
  "SWITCHED_ON = 1"

definition ENABLE :: nat where
  "ENABLE = 2"

definition FAULT :: nat where
  "FAULT = 3"

definition VOLTAGE_ENABLED :: nat where
  "VOLTAGE_ENABLED = 4"

definition QUICKSTOP :: nat where
  "QUICKSTOP = 5"

definition WARNING :: nat where
  "WARNING = 7"

text \<open>Lines 723--742: the summary derived from the cached statusword.\<close>

definition statusword_summary :: "Epos \<Rightarrow> DiagnosticStatusWrapper \<Rightarrow> DiagnosticStatusWrapper" where
  "statusword_summary s stat =
     (let enabled = (STATUSWORD READY_TO_SWITCH_ON (statusword s)
                     \<and> STATUSWORD SWITCHED_ON (statusword s) \<and> STATUSWORD ENABLE (statusword s));
          stat1 = (if enabled then summary OK ''Enabled'' stat else summary OK ''Disabled'' stat);
          stat2 = (if \<not> STATUSWORD QUICKSTOP (statusword s) \<and> enabled
                   then mergeSummary WARN ''Quickstop'' stat1 else stat1);
          stat3 = (if STATUSWORD WARNING (statusword s)
                   then mergeSummary WARN ''Warning'' stat2 else stat2)
      in if STATUSWORD FAULT (statusword s) then mergeSummary ERROR ''Fault'' stat3 else stat3)"

text \<open>
  Lines 753--771: one \<open>ERROR\<close> summary per pending device error, also when its code cannot
  be read. \<open>GetErrorInfo\<close> is a utility of the repository that is not among the source
  files: the loop takes as a parameter the description, if any, that it gives for the
  failure of the last call.
\<close>

function status_error_loop ::
  "device \<Rightarrow> (vcs_call list \<Rightarrow> string option) \<Rightarrow> nat \<Rightarrow> nat
    \<Rightarrow> DiagnosticStatusWrapper \<times> world \<Rightarrow> DiagnosticStatusWrapper \<times> world" where
  "status_error_loop dev GetErrorInfo i num_errors x =
     (if i \<le> num_errors then
        (case x of (stat, w) \<Rightarrow>
           (case vcs dev (GetDeviceErrorCode (int i)) w of
              (Some error_number, w') \<Rightarrow>
                status_error_loop dev GetErrorInfo (i + 1) num_errors
                  (mergeSummary ERROR (''EPOS Device Error: 0x'' @ hex (nat error_number)) stat, w')
            | (None, w') \<Rightarrow>
                status_error_loop dev GetErrorInfo (i + 1) num_errors
                  (mergeSummary ERROR
                     (case GetErrorInfo (calls w') of
                        Some error_str \<Rightarrow> ''Could not read device error: '' @ error_str
                      | None \<Rightarrow> ''Could not read device error'') stat, w')))
      else x)"
  by pat_completeness auto
termination
  by (relation "measure (\<lambda>(dev, g, i, num_errors, x). num_errors + 1 - i)") auto

declare status_error_loop.simps [simp del]

definition Epos_buildMotorStatus ::
  "device \<Rightarrow> (vcs_call list \<Rightarrow> string option) \<Rightarrow> Epos
    \<Rightarrow> DiagnosticStatusWrapper \<times> world \<Rightarrow> (DiagnosticStatusWrapper \<times> world) option" where
  "Epos_buildMotorStatus dev GetErrorInfo s x =
     (case x of (stat, w) \<Rightarrow>
        (let stat0 = add_value ''Actuator Name'' (actuator_name s) stat in
         if has_init s then
           (case node_handle s of
              None \<Rightarrow> None
            | Some h \<Rightarrow>
                (let stat1 = statusword_summary s stat0;
                     stat2 = add_bool ''Enabled'' (STATUSWORD ENABLE (statusword s)) stat1;
                     stat3 = add_bool ''Fault'' (STATUSWORD FAULT (statusword s)) stat2;
                     stat4 = add_bool ''Voltage Enabled'' (STATUSWORD VOLTAGE_ENABLED (statusword s)) stat3;
                     stat5 = add_bool ''Quickstop'' (STATUSWORD QUICKSTOP (statusword s)) stat4;
                     stat6 = add_bool ''Warning'' (STATUSWORD WARNING (statusword s)) stat5
                 in case vcs dev GetNbOfDeviceError w of
                      (Some n, w1) \<Rightarrow>
                        Some (status_error_loop dev GetErrorInfo 1 (as_uchar n) (stat6, w1))
                    | (None, w1) \<Rightarrow>
                        Some (mergeSummary ERROR
                                (case GetErrorInfo (calls w1) of
                                   Some error_str \<Rightarrow> ''Could not read device errors: '' @ error_str
                                 | None \<Rightarrow> ''Could not read device errors'') stat6, w1)))
         else Some (summary ERROR ''EPOS not initialized'' stat0, w)))"

subsection \<open>A concrete driver, device and configuration\<close>

text \<open>
  The inputs at which the theorems below are instantiated. The configuration names a
  motor and an incremental encoder of 500 counts, a torque constant of 2, a velocity limit
  of 10 and two controllers; \<open>units\<close> is \<open>rw_ros_units\<close> and \<open>clear\<close> is
  \<open>clear_faults\<close>.
\<close>

definition demo_cfg :: "bool \<Rightarrow> bool \<Rightarrow> NodeHandle" where
  "demo_cfg units clear =
     \<lparr>getNamespace = ''/epos'',
      ints = [''/epos/motor/type'' \<mapsto> 1, ''/epos/sensor/type'' \<mapsto> 1,
              ''/epos/sensor/incremental_encoder/resolution'' \<mapsto> 500,
              ''/epos/safety/max_profile_velocity'' \<mapsto> 10],
      doubles = [''/epos/torque_constant'' \<mapsto> 2],
      bools = [''/epos/sensor/incremental_encoder/inverted_polarity'' \<mapsto> False,
               ''/epos/rw_ros_units'' \<mapsto> units, ''/epos/clear_faults'' \<mapsto> clear],
      strings = [''/epos/actuator_name'' \<mapsto> ''wheel'', ''/epos/serial_number'' \<mapsto> ''1''],
      string_maps = [''/epos/operation_mode_map'' \<mapsto>
                       [(''velocity_controller'', ''profile_velocity''),
                        (''effort_controller'', ''current'')]]\<rparr>"

text \<open>The storage before construction; \<open>m\<close> is what the bytes of \<open>operation_mode_\<close> hold.\<close>

definition demo_raw :: "OperationMode \<Rightarrow> Epos" where
  "demo_raw m =
     \<lparr>name = [], config_nh = demo_cfg False False, valid = False, has_init = True,
      actuator_name = [], serial_number = 0, operation_mode_map = Map.empty,
      operation_mode = m, rw_ros_units = False, node_handle = None,
      position = Fin 1, velocity = Fin 1, effort = Fin 1, current = Fin 1, statusword = 0,
      position_cmd = Fin 1, velocity_cmd = Fin 1, torque_cmd = Fin 0,
      torque_constant = 0, nominal_current = 0, max_current = 0, encoder_resolution = 0,
      max_profile_velocity = 0, halt_velocity = False, power_supply_name = [],
      power_supply_voltage = Fin 0, power_supply_present = False\<rparr>"

text \<open>A stand-in for \<open>SerialNumberFromHex\<close>: every text is the serial number 1.\<close>

definition demo_hex :: "string \<Rightarrow> nat option" where
  "demo_hex str = Some 1"

text \<open>The driver as the constructor leaves it, and as a successful \<open>init\<close> leaves it.\<close>

definition demo_epos :: "OperationMode \<Rightarrow> bool \<Rightarrow> bool \<Rightarrow> Epos" where
  "demo_epos m units clear =
     (demo_raw m)\<lparr>name := ''epos'', config_nh := demo_cfg units clear, valid := True,
       has_init := False, actuator_name := ''wheel'', serial_number := 1,
       operation_mode_map := [''velocity_controller'' \<mapsto> PROFILE_VELOCITY_MODE,
                              ''effort_controller'' \<mapsto> CURRENT_MODE],
       rw_ros_units := units,
       position := Fin 0, velocity := Fin 0, effort := Fin 0, current := Fin 0,
       position_cmd := Fin 0, velocity_cmd := Fin 0\<rparr>"

definition demo_configured :: "OperationMode \<Rightarrow> bool \<Rightarrow> bool \<Rightarrow> Epos" where
  "demo_configured m units clear =
     (demo_epos m units clear)\<lparr>node_handle := Some 0, torque_constant := 2,
       nominal_current := 0, max_current := 0,
       encoder_resolution := 500, max_profile_velocity := 10\<rparr>"

definition demo_ready :: "OperationMode \<Rightarrow> bool \<Rightarrow> bool \<Rightarrow> Epos" where
  "demo_ready m units clear =
     (demo_configured m units clear)\<lparr>halt_velocity := False, has_init := True\<rparr>"

definition w0 :: world where
  "w0 = \<lparr>calls = [], rosout = []\<rparr>"

text \<open>The calls that \<open>init\<close> issues for this configuration before it queries the faults.\<close>

definition demo_configure_calls :: "vcs_call list" where
  "demo_configure_calls =
     [CreateNodeHandle ''EPOS4'' ''MAXON SERIAL V2'' ''USB'' 1,
      SetProtocolStackSettings 1000000 500, SetDisableState, SetMotorType 1, SetSensorType 1,
      SetIncEncoderParameter 500 False, SetMaxProfileVelocity 10]"

text \<open>
  A device that reports \<open>n\<close> faults until \<open>ClearFault\<close> has been called and \<open>k\<close>
  faults afterwards, and that answers every other call with success.
\<close>

definition fault_dev :: "int \<Rightarrow> int \<Rightarrow> device" where
  "fault_dev n k h c =
     (if c = GetNbOfDeviceError then Some (if ClearFault \<in> set h then k else n) else Some 0)"

text \<open>No device is connected: every call fails.\<close>

definition no_dev :: device where
  "no_dev h c = None"

text \<open>
  The configuration above with one attribute of the group \<open>motor/dc_motor\<close> and without
  the other two, and the driver constructed for it.
\<close>

definition demo_partial_cfg :: NodeHandle where
  "demo_partial_cfg =
     (demo_cfg True False)\<lparr>doubles := [''/epos/torque_constant'' \<mapsto> 2,
                                        ''/epos/motor/dc_motor/nominal_current'' \<mapsto> 1.5]\<rparr>"

definition demo_partial_epos :: Epos where
  "demo_partial_epos = (demo_epos PROFILE_VELOCITY_MODE True False)\<lparr>config_nh := demo_partial_cfg\<rparr>"

text \<open>A device whose position read fails, while every other call succeeds with 0.\<close>

definition position_fails_dev :: device where
  "position_fails_dev h c = (if c = GetPositionIs then None else Some 0)"

text \<open>A status wrapper before the report is built, and an error utility without descriptions.\<close>

definition fresh_status :: DiagnosticStatusWrapper where
  "fresh_status = \<lparr>level = 0, message = [], key_values = []\<rparr>"

definition no_error_info :: "vcs_call list \<Rightarrow> string option" where
  "no_error_info h = None"

subsection \<open>Frame condition of a statement of \<open>init\<close>\<close>

text \<open>
  A statement keeps the configuration handle and the \<open>has_init\<close> flag and only adds to
  the calls issued.
\<close>

definition keeps :: "step \<Rightarrow> bool" where
  "keeps f =
     (\<forall>x y. (f x = Some (Continue y) \<longrightarrow>
               config_nh (fst y) = config_nh (fst x) \<and> has_init (fst y) = has_init (fst x)
               \<and> (\<exists>ext. calls (snd y) = calls (snd x) @ ext))
          \<and> (f x = Some (ReturnFalse y) \<longrightarrow> has_init (fst y) = has_init (fst x)))"


subsection \<open>The parameter groups of \<open>init\<close>\<close>







lemma demo_cfg_sel [simp]:
  "getNamespace (demo_cfg u c) = ''/epos''"
  "ints (demo_cfg u c) = [''/epos/motor/type'' \<mapsto> 1, ''/epos/sensor/type'' \<mapsto> 1,
              ''/epos/sensor/incremental_encoder/resolution'' \<mapsto> 500,
              ''/epos/safety/max_profile_velocity'' \<mapsto> 10]"
  "doubles (demo_cfg u c) = [''/epos/torque_constant'' \<mapsto> 2]"
  "bools (demo_cfg u c) = [''/epos/sensor/incremental_encoder/inverted_polarity'' \<mapsto> False,
               ''/epos/rw_ros_units'' \<mapsto> u, ''/epos/clear_faults'' \<mapsto> c]"
  "strings (demo_cfg u c) = [''/epos/actuator_name'' \<mapsto> ''wheel'', ''/epos/serial_number'' \<mapsto> ''1'']"
  "string_maps (demo_cfg u c) = [''/epos/operation_mode_map'' \<mapsto>
                       [(''velocity_controller'', ''profile_velocity''),
                        (''effort_controller'', ''current'')]]"
  by (simp_all add: demo_cfg_def)

lemma demo_epos_sel [simp]:
  "config_nh (demo_epos m u c) = demo_cfg u c"
  "valid (demo_epos m u c) = True"
  "has_init (demo_epos m u c) = False"
  "serial_number (demo_epos m u c) = 1"
  "operation_mode_map (demo_epos m u c) = [''velocity_controller'' \<mapsto> PROFILE_VELOCITY_MODE,
                              ''effort_controller'' \<mapsto> CURRENT_MODE]"
  "operation_mode (demo_epos m u c) = m"
  "rw_ros_units (demo_epos m u c) = u"
  "position_cmd (demo_epos m u c) = Fin 0"
  "velocity_cmd (demo_epos m u c) = Fin 0"
  "torque_cmd (demo_epos m u c) = Fin 0"
  "position (demo_epos m u c) = Fin 0"
  "halt_velocity (demo_epos m u c) = False"
  "power_supply_name (demo_epos m u c) = []"
  "statusword (demo_epos m u c) = 0"
  by (simp_all add: demo_epos_def demo_raw_def)

lemma fault_dev_simps [simp]:
  "fault_dev n k h GetNbOfDeviceError = Some (if ClearFault \<in> set h then k else n)"
  "c \<noteq> GetNbOfDeviceError \<Longrightarrow> fault_dev n k h c = Some 0"
  by (simp_all add: fault_dev_def)

lemma ctor_demo:
  "Epos_ctor demo_hex (demo_raw m) ''epos'' (demo_cfg u c) = Some (demo_epos m u c)"
  by (simp add: Epos_ctor_def ctor_initialisers_def ctor_identity_def ctor_modes_def
      ctor_power_supply_def demo_hex_def demo_raw_def demo_epos_def getParam_string_def
      getParam_string_map_def resolveName_def param_bool_default_def getParam_bool_def Let_def)

lemma demo_ready_sel [simp]:
  "config_nh (demo_ready m u c) = demo_cfg u c"
  "has_init (demo_ready m u c) = True"
  "node_handle (demo_ready m u c) = Some 0"
  "operation_mode_map (demo_ready m u c) = [''velocity_controller'' \<mapsto> PROFILE_VELOCITY_MODE,
                              ''effort_controller'' \<mapsto> CURRENT_MODE]"
  "operation_mode (demo_ready m u c) = m"
  "rw_ros_units (demo_ready m u c) = u"
  "position_cmd (demo_ready m u c) = Fin 0"
  "velocity_cmd (demo_ready m u c) = Fin 0"
  "torque_cmd (demo_ready m u c) = Fin 0"
  "position (demo_ready m u c) = Fin 0"
  "torque_constant (demo_ready m u c) = 2"
  "encoder_resolution (demo_ready m u c) = 500"
  "max_profile_velocity (demo_ready m u c) = 10"
  "halt_velocity (demo_ready m u c) = False"
  "power_supply_name (demo_ready m u c) = []"
  "statusword (demo_ready m u c) = 0"
  by (simp_all add: demo_ready_def demo_configured_def)

section \<open>Properties\<close>

subsection \<open>Conversions\<close>

lemma trunc_zero [simp]: "trunc 0 = 0"
  by (simp add: trunc_def)

lemma trunc_of_int [simp]: "trunc (of_int n) = n"
  by (simp add: trunc_def)

lemma double_to_int_Fin:
  "double_to_int (Fin x) = (if INT_MIN \<le> trunc x \<and> trunc x \<le> INT_MAX then Some (trunc x) else None)"
  by (simp add: double_to_int_def)

lemma double_to_int_zero [simp]: "double_to_int (Fin 0) = Some 0"
  by (simp add: double_to_int_def INT_MIN_def INT_MAX_def)




lemma clamp_velocity_zero [simp]: "clamp_velocity limit 0 = 0"
  by (simp add: clamp_velocity_def Let_def)


subsection \<open>What \<open>write\<close> sends\<close>

lemma write_not_initialised: "\<not> has_init s \<Longrightarrow> Epos_write dev (s, w) = Some (s, w)"
  by (simp add: Epos_write_def)

lemma write_velocity:
  assumes "has_init s" and "operation_mode s = PROFILE_VELOCITY_MODE"
    and "node_handle s = Some h" and "velocity_cmd s = Fin v"
    and "double_to_int (Fin (if rw_ros_units s then v * 30 / pi else v)) = Some n"
  shows "Epos_write dev (s, w) =
           Some (s, w\<lparr>calls := calls w @
             [if clamp_velocity (max_profile_velocity s) n = 0 \<and> halt_velocity s
              then HaltVelocityMovement
              else MoveWithVelocity (clamp_velocity (max_profile_velocity s) n)]\<rparr>)"
  using assms by (simp add: Epos_write_def isnan_def vcs_def Let_def split: if_splits)




subsection \<open>Statements in sequence\<close>

lemma run_steps_append:
  "run_steps (fs @ gs) x =
     (case run_steps fs x of
        None \<Rightarrow> None
      | Some (ReturnFalse y) \<Rightarrow> Some (ReturnFalse y)
      | Some (Continue y) \<Rightarrow> run_steps gs y)"
  by (induction fs arbitrary: x) (auto split: option.splits flow.splits)

lemma run_steps_single: "run_steps [f] x = f x"
  by (auto split: option.splits flow.splits)

lemma run_steps_snoc:
  "run_steps (fs @ [g]) x =
     (case run_steps fs x of
        None \<Rightarrow> None
      | Some (ReturnFalse y) \<Rightarrow> Some (ReturnFalse y)
      | Some (Continue y) \<Rightarrow> g y)"
  by (auto simp: run_steps_append run_steps_single simp del: run_steps.simps
      split: option.splits flow.splits)

lemma keepsI:
  assumes "\<And>x y. f x = Some (Continue y) \<Longrightarrow>
             config_nh (fst y) = config_nh (fst x) \<and> has_init (fst y) = has_init (fst x)
             \<and> (\<exists>ext. calls (snd y) = calls (snd x) @ ext)"
    and "\<And>x y. f x = Some (ReturnFalse y) \<Longrightarrow> has_init (fst y) = has_init (fst x)"
  shows "keeps f"
  using assms unfolding keeps_def by blast

lemma keeps_ContinueD:
  "keeps f \<Longrightarrow> f x = Some (Continue y) \<Longrightarrow>
     config_nh (fst y) = config_nh (fst x) \<and> has_init (fst y) = has_init (fst x)
     \<and> (\<exists>ext. calls (snd y) = calls (snd x) @ ext)"
  unfolding keeps_def by blast

lemma keeps_ReturnFalseD:
  "keeps f \<Longrightarrow> f x = Some (ReturnFalse y) \<Longrightarrow> has_init (fst y) = has_init (fst x)"
  unfolding keeps_def by blast

lemma keeps_run_steps:
  "(\<And>f. f \<in> set fs \<Longrightarrow> keeps f) \<Longrightarrow> keeps (run_steps fs)"
proof (induction fs)
  case Nil
  show ?case
    by (rule keepsI) auto
next
  case (Cons f fs)
  have f: "keeps f" and rest: "keeps (run_steps fs)"
    using Cons by auto
  show ?case
  proof (rule keepsI)
    fix x y
    assume "run_steps (f # fs) x = Some (Continue y)"
    then obtain z where z: "f x = Some (Continue z)" "run_steps fs z = Some (Continue y)"
      by (auto split: option.splits flow.splits)
    from keeps_ContinueD [OF f z(1)] keeps_ContinueD [OF rest z(2)]
    show "config_nh (fst y) = config_nh (fst x) \<and> has_init (fst y) = has_init (fst x)
          \<and> (\<exists>ext. calls (snd y) = calls (snd x) @ ext)"
      by auto
  next
    fix x y
    assume "run_steps (f # fs) x = Some (ReturnFalse y)"
    then consider "f x = Some (ReturnFalse y)"
      | z where "f x = Some (Continue z)" "run_steps fs z = Some (ReturnFalse y)"
      by (auto split: option.splits flow.splits)
    then show "has_init (fst y) = has_init (fst x)"
    proof cases
      case 1
      then show ?thesis
        using keeps_ReturnFalseD [OF f] by simp
    next
      case 2
      then show ?thesis
        using keeps_ContinueD [OF f 2(1)] keeps_ReturnFalseD [OF rest 2(2)] by simp
    qed
  qed
qed

lemma keeps_VCS: "keeps (VCS dev func c)"
  by (rule keepsI) (auto simp: VCS_def vcs_def ROS_ERROR_def split: option.splits)

lemma keeps_group_step: "keeps body \<Longrightarrow> keeps (group_step r body)"
  unfolding keeps_def group_step_def
  by (cases r) (auto split: bool.splits if_splits)

lemmas step_unfold = VCS_def vcs_def ROS_ERROR_def group_step_def param_int_def param_double_def
  param_bool_def VCS_FROM_SINGLE_PARAM_REQUIRED_def VCS_FROM_SINGLE_PARAM_OPTIONAL_def
  SET_FAULT_REACTION_OPTION_def Let_def

lemma keeps_init_valid: "keeps init_valid"
  by (rule keepsI) (auto simp: init_valid_def step_unfold split: if_splits)

lemma keeps_init_create_node_handle: "keeps (init_create_node_handle dev)"
  by (rule keepsI) (auto simp: init_create_node_handle_def step_unfold split: option.splits)

lemma keeps_init_protocol_stack: "keeps (init_protocol_stack dev)"
  by (simp add: init_protocol_stack_def keeps_VCS)

lemma keeps_init_disable: "keeps (init_disable dev)"
  by (simp add: init_disable_def keeps_VCS)

lemma keeps_init_initial_mode: "keeps (init_initial_mode dev)"
  by (rule keepsI) (auto simp: init_initial_mode_def step_unfold split: option.splits)

lemma keeps_init_fault_reaction: "keeps (init_fault_reaction dev)"
  by (rule keepsI) (auto simp: init_fault_reaction_def step_unfold split: option.splits if_splits)

lemma keeps_init_torque_constant: "keeps init_torque_constant"
  by (rule keepsI) (auto simp: init_torque_constant_def split: option.splits)

lemma keeps_init_motor_type: "keeps (init_motor_type dev)"
  by (rule keepsI) (auto simp: init_motor_type_def step_unfold split: option.splits)

lemma keeps_init_max_speed: "keeps (init_max_speed dev)"
  by (rule keepsI) (auto simp: init_max_speed_def step_unfold split: option.splits)

lemma keeps_init_sensor_type: "keeps (init_sensor_type dev)"
  by (rule keepsI) (auto simp: init_sensor_type_def step_unfold split: option.splits)

lemma keeps_init_encoder_check: "keeps init_encoder_check"
  by (rule keepsI) (auto simp: init_encoder_check_def step_unfold split: if_splits)

lemma keeps_OPTIONAL: "keeps (VCS_FROM_SINGLE_PARAM_OPTIONAL dev h key func mk)"
  by (rule keepsI) (auto simp: step_unfold split: option.splits)

lemma keeps_init_safety: "keeps (init_safety dev)"
proof -
  let ?h = "\<lambda>x. child_nh (config_nh (fst x)) ''safety''"
  let ?fs = "\<lambda>x. [VCS_FROM_SINGLE_PARAM_OPTIONAL dev (?h x) ''max_following_error''
                ''SetMaxFollowingError'' SetMaxFollowingError,
              VCS_FROM_SINGLE_PARAM_OPTIONAL dev (?h x) ''max_profile_velocity''
                ''SetMaxProfileVelocity'' SetMaxProfileVelocity,
              VCS_FROM_SINGLE_PARAM_OPTIONAL dev (?h x) ''max_acceleration''
                ''SetMaxAcceleration'' SetMaxAcceleration]"
  have inner: "keeps (run_steps (?fs x))" for x
    by (rule keeps_run_steps) (auto simp: keeps_OPTIONAL)
  show ?thesis
  proof (rule keepsI)
    fix x y
    assume "init_safety dev x = Some (Continue y)"
    then obtain z where z: "run_steps (?fs x) x = Some (Continue z)"
      and y: "config_nh (fst y) = config_nh (fst z)" "has_init (fst y) = has_init (fst z)"
        "snd y = snd z"
      by (auto simp: init_safety_def Let_def split: option.splits flow.splits prod.splits)
    from keeps_ContinueD [OF inner z] y
    show "config_nh (fst y) = config_nh (fst x) \<and> has_init (fst y) = has_init (fst x)
          \<and> (\<exists>ext. calls (snd y) = calls (snd x) @ ext)"
      by simp
  next
    fix x y
    assume "init_safety dev x = Some (ReturnFalse y)"
    then have "run_steps (?fs x) x = Some (ReturnFalse y)"
      by (auto simp: init_safety_def Let_def split: option.splits flow.splits prod.splits)
    from keeps_ReturnFalseD [OF inner this]
    show "has_init (fst y) = has_init (fst x)" .
  qed
qed

lemma keeps_init_dc_motor: "keeps (init_dc_motor dev)"
  by (rule keepsI)
    (auto simp: init_dc_motor_def step_unfold int_neg_def shl1_def
      split: option.splits prod.splits bool.splits if_splits flow.splits)

lemma keeps_init_ec_motor: "keeps (init_ec_motor dev)"
  by (rule keepsI)
    (auto simp: init_ec_motor_def step_unfold int_neg_def shl1_def
      split: option.splits prod.splits bool.splits if_splits flow.splits)

lemma keeps_init_incremental_encoder: "keeps (init_incremental_encoder dev)"
  by (rule keepsI)
    (auto simp: init_incremental_encoder_def step_unfold int_neg_def shl1_def
      split: option.splits prod.splits bool.splits if_splits flow.splits)

lemma keeps_init_hall_sensor: "keeps (init_hall_sensor dev)"
  by (rule keepsI)
    (auto simp: init_hall_sensor_def step_unfold int_neg_def shl1_def
      split: option.splits prod.splits bool.splits if_splits flow.splits)

lemma keeps_init_ssi_absolute_encoder: "keeps (init_ssi_absolute_encoder dev)"
  by (rule keepsI)
    (auto simp: init_ssi_absolute_encoder_def step_unfold int_neg_def shl1_def
      split: option.splits prod.splits bool.splits if_splits flow.splits)

lemma keeps_init_position_regulator_gain: "keeps (init_position_regulator_gain dev)"
  by (rule keepsI)
    (auto simp: init_position_regulator_gain_def step_unfold int_neg_def shl1_def
      split: option.splits prod.splits bool.splits if_splits flow.splits)

lemma keeps_init_position_regulator_feed_forward: "keeps (init_position_regulator_feed_forward dev)"
  by (rule keepsI)
    (auto simp: init_position_regulator_feed_forward_def step_unfold int_neg_def shl1_def
      split: option.splits prod.splits bool.splits if_splits flow.splits)

lemma keeps_init_velocity_regulator_gain: "keeps (init_velocity_regulator_gain dev)"
  by (rule keepsI)
    (auto simp: init_velocity_regulator_gain_def step_unfold int_neg_def shl1_def
      split: option.splits prod.splits bool.splits if_splits flow.splits)

lemma keeps_init_velocity_regulator_feed_forward: "keeps (init_velocity_regulator_feed_forward dev)"
  by (rule keepsI)
    (auto simp: init_velocity_regulator_feed_forward_def step_unfold int_neg_def shl1_def
      split: option.splits prod.splits bool.splits if_splits flow.splits)

lemma keeps_init_current_regulator_gain: "keeps (init_current_regulator_gain dev)"
  by (rule keepsI)
    (auto simp: init_current_regulator_gain_def step_unfold int_neg_def shl1_def
      split: option.splits prod.splits bool.splits if_splits flow.splits)

lemma keeps_init_position_profile: "keeps (init_position_profile dev)"
  by (rule keepsI)
    (auto simp: init_position_profile_def step_unfold int_neg_def shl1_def
      split: option.splits prod.splits bool.splits if_splits flow.splits)

lemma keeps_init_position_profile_window: "keeps (init_position_profile_window dev)"
  by (rule keepsI)
    (auto simp: init_position_profile_window_def step_unfold int_neg_def shl1_def
      split: option.splits prod.splits bool.splits if_splits flow.splits)

lemma keeps_init_velocity_profile: "keeps (init_velocity_profile dev)"
  by (rule keepsI)
    (auto simp: init_velocity_profile_def step_unfold int_neg_def shl1_def
      split: option.splits prod.splits bool.splits if_splits flow.splits)

lemma keeps_init_velocity_profile_window: "keeps (init_velocity_profile_window dev)"
  by (rule keepsI)
    (auto simp: init_velocity_profile_window_def step_unfold int_neg_def shl1_def
      split: option.splits prod.splits bool.splits if_splits flow.splits)

subsection \<open>The fault phase of \<open>init\<close>\<close>

lemma error_code_loop_calls:
  "error_code_loop dev i n w = (b, w') \<Longrightarrow>
     \<exists>js. calls w' = calls w @ map GetDeviceErrorCode js \<and> rosout w' = rosout w"
proof (induction dev i n w rule: error_code_loop.induct)
  case (1 dev i num_errors w)
  show ?case
  proof (cases "i \<le> num_errors")
    case False
    then have "w' = w"
      using "1.prems" by (simp add: error_code_loop.simps)
    then show ?thesis
      by (intro exI [of _ "[]"]) simp
  next
    case True
    let ?w1 = "w\<lparr>calls := calls w @ [GetDeviceErrorCode (int i)]\<rparr>"
    show ?thesis
    proof (cases "dev (calls w) (GetDeviceErrorCode (int i))")
      case None
      then have "w' = ?w1"
        using "1.prems" True by (simp add: error_code_loop.simps [of dev i] vcs_def)
      then show ?thesis
        by (intro exI [of _ "[int i]"]) simp
    next
      case (Some v)
      then have rec: "error_code_loop dev (i + 1) num_errors ?w1 = (b, w')"
        using "1.prems" True by (simp add: error_code_loop.simps [of dev i] vcs_def)
      have "\<exists>js. calls w' = calls ?w1 @ map GetDeviceErrorCode js \<and> rosout w' = rosout ?w1"
        using "1.IH" [OF True _ _ rec] Some by (simp add: vcs_def)
      then obtain js where "calls w' = calls ?w1 @ map GetDeviceErrorCode js"
        and "rosout w' = rosout ?w1"
        by blast
      then show ?thesis
        by (intro exI [of _ "int i # js"]) simp
    qed
  qed
qed



lemma keeps_init_query_faults: "keeps (init_query_faults dev)"
proof (rule keepsI)
  fix x y
  assume a: "init_query_faults dev x = Some (Continue y)"
  obtain s w where x: "x = (s, w)"
    by (cases x)
  from a x obtain k b w2 where
    loop: "error_code_loop dev 1 k (w\<lparr>calls := calls w @ [GetNbOfDeviceError]\<rparr>) = (b, w2)"
    and y: "fst y = s" "snd y = w2 \<or> snd y = w2\<lparr>calls := calls w2 @ [ClearFault]\<rparr>"
    by (auto simp: init_query_faults_def vcs_def ROS_ERROR_def Let_def
        split: option.splits prod.splits bool.splits if_splits)
  from error_code_loop_calls [OF loop] y x
  show "config_nh (fst y) = config_nh (fst x) \<and> has_init (fst y) = has_init (fst x)
        \<and> (\<exists>ext. calls (snd y) = calls (snd x) @ ext)"
    by auto
next
  fix x y
  assume "init_query_faults dev x = Some (ReturnFalse y)"
  then show "has_init (fst y) = has_init (fst x)"
    by (auto simp: init_query_faults_def vcs_def ROS_ERROR_def Let_def
        split: option.splits prod.splits bool.splits if_splits)
qed

lemma keeps_init_verify_faults: "keeps (init_verify_faults dev)"
  by (rule keepsI)
    (auto simp: init_verify_faults_def vcs_def ROS_ERROR_def split: option.splits if_splits)

lemma keeps_init_configure: "keeps (run_steps (init_configure dev))"
  by (rule keeps_run_steps)
    (auto simp: init_configure_def keeps_init_valid keeps_init_create_node_handle
      keeps_init_protocol_stack keeps_init_disable keeps_init_initial_mode
      keeps_init_fault_reaction keeps_init_torque_constant keeps_init_motor_type
      keeps_init_dc_motor keeps_init_ec_motor keeps_init_max_speed keeps_init_sensor_type
      keeps_init_incremental_encoder keeps_init_hall_sensor keeps_init_ssi_absolute_encoder
      keeps_init_encoder_check keeps_init_safety keeps_init_position_regulator_gain
      keeps_init_position_regulator_feed_forward keeps_init_velocity_regulator_gain
      keeps_init_velocity_regulator_feed_forward keeps_init_current_regulator_gain
      keeps_init_position_profile keeps_init_position_profile_window
      keeps_init_velocity_profile keeps_init_velocity_profile_window)

lemma query_faults_ContinueD:
  assumes "init_query_faults dev x = Some (Continue y)"
  shows "\<exists>ext. calls (snd y) = calls (snd x) @ GetNbOfDeviceError # ext"
proof -
  obtain s w where x: "x = (s, w)"
    by (cases x)
  from assms x obtain k b w2 where
    loop: "error_code_loop dev 1 k (w\<lparr>calls := calls w @ [GetNbOfDeviceError]\<rparr>) = (b, w2)"
    and y: "snd y = w2 \<or> snd y = w2\<lparr>calls := calls w2 @ [ClearFault]\<rparr>"
    by (auto simp: init_query_faults_def vcs_def ROS_ERROR_def Let_def
        split: option.splits prod.splits bool.splits if_splits)
  from error_code_loop_calls [OF loop] y x show ?thesis
    by auto
qed

lemma verify_faults_ContinueD:
  assumes "init_verify_faults dev x = Some (Continue y)"
  shows "\<exists>n. dev (calls (snd x)) GetNbOfDeviceError = Some n \<and> as_uchar n = 0
           \<and> fst y = fst x \<and> calls (snd y) = calls (snd x) @ [GetNbOfDeviceError]"
  using assms
  by (cases x) (auto simp: init_verify_faults_def vcs_def ROS_ERROR_def split: option.splits if_splits)

lemma enable_ContinueD:
  assumes "init_enable dev x = Some (Continue y)"
  shows "has_init (fst y) \<and> calls (snd y) = calls (snd x) @ [SetEnableState]"
  using assms
  by (cases x) (auto simp: init_enable_def vcs_def Let_def split: option.splits)

lemma enable_ReturnFalseD:
  assumes "init_enable dev x = Some (ReturnFalse y)"
  shows "has_init (fst y) = has_init (fst x)"
  using assms
  by (cases x) (auto simp: init_enable_def vcs_def Let_def split: option.splits)

lemma init_TrueD:
  assumes "Epos_init dev x = Some (True, y)"
  obtains x1 x2 x3 where "run_steps (init_configure dev) x = Some (Continue x1)"
    and "init_query_faults dev x1 = Some (Continue x2)"
    and "init_verify_faults dev x2 = Some (Continue x3)"
    and "init_enable dev x3 = Some (Continue y)"
proof -
  from assms have "run_steps (init_configure dev
      @ [init_query_faults dev, init_verify_faults dev, init_enable dev]) x = Some (Continue y)"
    by (auto simp: Epos_init_def split: option.splits flow.splits)
  then show ?thesis
    using that by (auto simp: run_steps_append split: option.splits flow.splits)
qed

lemma init_False_has_init:
  assumes "Epos_init dev x = Some (False, y)"
  shows "has_init (fst y) = has_init (fst x)"
proof -
  let ?front = "init_configure dev @ [init_query_faults dev, init_verify_faults dev]"
  have front: "keeps (run_steps ?front)"
    by (rule keeps_run_steps)
      (use keeps_init_configure in \<open>auto simp: init_configure_def keeps_init_valid keeps_init_create_node_handle
      keeps_init_protocol_stack keeps_init_disable keeps_init_initial_mode
      keeps_init_fault_reaction keeps_init_torque_constant keeps_init_motor_type
      keeps_init_dc_motor keeps_init_ec_motor keeps_init_max_speed keeps_init_sensor_type
      keeps_init_incremental_encoder keeps_init_hall_sensor keeps_init_ssi_absolute_encoder
      keeps_init_encoder_check keeps_init_safety keeps_init_position_regulator_gain
      keeps_init_position_regulator_feed_forward keeps_init_velocity_regulator_gain
      keeps_init_velocity_regulator_feed_forward keeps_init_current_regulator_gain
      keeps_init_position_profile keeps_init_position_profile_window
      keeps_init_velocity_profile keeps_init_velocity_profile_window
      keeps_init_query_faults keeps_init_verify_faults\<close>)
  have "init_configure dev @ [init_query_faults dev, init_verify_faults dev, init_enable dev]
      = ?front @ [init_enable dev]"
    by simp
  with assms have "run_steps (?front @ [init_enable dev]) x = Some (ReturnFalse y)"
    by (auto simp: Epos_init_def simp del: append_assoc split: option.splits flow.splits)
  from this [unfolded run_steps_snoc]
  consider "run_steps ?front x = Some (ReturnFalse y)"
    | z where "run_steps ?front x = Some (Continue z)" "init_enable dev z = Some (ReturnFalse y)"
    by (auto split: option.splits flow.splits)
  then show ?thesis
  proof cases
    case 1
    then show ?thesis
      using keeps_ReturnFalseD [OF front] by simp
  next
    case 2
    then show ?thesis
      using keeps_ContinueD [OF front 2(1)] enable_ReturnFalseD [OF 2(2)] by simp
  qed
qed

subsection \<open>The constructor and the concrete driver\<close>

lemma load_operation_mode_map_frame:
  "has_init (load_operation_mode_map xs s) = has_init s
   \<and> position_cmd (load_operation_mode_map xs s) = position_cmd s
   \<and> velocity_cmd (load_operation_mode_map xs s) = velocity_cmd s"
proof (induction xs arbitrary: s)
  case Nil
  show ?case
    by simp
next
  case (Cons a xs)
  obtain k v where a: "a = (k, v)"
    by (cases a)
  show ?case
    unfolding a load_operation_mode_map.simps
    by (simp only: Cons.IH) simp
qed

lemma load_operation_mode_map_config [simp]:
  "config_nh (load_operation_mode_map xs s) = config_nh s"
proof (induction xs arbitrary: s)
  case Nil
  show ?case
    by simp
next
  case (Cons a xs)
  obtain k v where a: "a = (k, v)"
    by (cases a)
  show ?case
    unfolding a load_operation_mode_map.simps
    by (simp only: Cons.IH) simp
qed

lemma ctor_identity_frame:
  assumes "ctor_identity hexf t = Some s"
  shows "has_init s = has_init t \<and> position_cmd s = position_cmd t
         \<and> velocity_cmd s = velocity_cmd t"
  using assms by (auto simp: ctor_identity_def Let_def split: option.splits)

lemma ctor_modes_frame:
  "has_init (ctor_modes s) = has_init s \<and> position_cmd (ctor_modes s) = position_cmd s
   \<and> velocity_cmd (ctor_modes s) = velocity_cmd s"
  by (simp add: ctor_modes_def load_operation_mode_map_frame split: option.splits)

lemma ctor_power_supply_frame:
  "has_init (ctor_power_supply s) = has_init s
   \<and> position_cmd (ctor_power_supply s) = position_cmd s
   \<and> velocity_cmd (ctor_power_supply s) = velocity_cmd s"
  by (simp add: ctor_power_supply_def Let_def split: option.splits)

lemma ctor_initial_values:
  assumes "Epos_ctor hexf raw nm cfg = Some s"
  shows "\<not> has_init s \<and> position_cmd s = Fin 0 \<and> velocity_cmd s = Fin 0"
proof -
  from assms obtain t where t: "ctor_identity hexf (ctor_initialisers raw nm cfg) = Some t"
    and s: "s = ctor_power_supply (ctor_modes t)"
    by (auto simp: Epos_ctor_def)
  have "\<not> has_init (ctor_initialisers raw nm cfg)
      \<and> position_cmd (ctor_initialisers raw nm cfg) = Fin 0
      \<and> velocity_cmd (ctor_initialisers raw nm cfg) = Fin 0"
    by (simp add: ctor_initialisers_def)
  then show ?thesis
    using ctor_identity_frame [OF t] ctor_modes_frame [of t]
      ctor_power_supply_frame [of "ctor_modes t"] s
    by simp
qed

lemmas init_step_defs = init_valid_def init_create_node_handle_def init_protocol_stack_def
  init_disable_def init_initial_mode_def init_fault_reaction_def init_torque_constant_def
  init_motor_type_def init_dc_motor_def init_ec_motor_def init_max_speed_def
  init_sensor_type_def init_incremental_encoder_def init_hall_sensor_def
  init_ssi_absolute_encoder_def init_encoder_check_def init_safety_def
  init_position_regulator_gain_def init_position_regulator_feed_forward_def
  init_velocity_regulator_gain_def init_velocity_regulator_feed_forward_def
  init_current_regulator_gain_def init_position_profile_def init_position_profile_window_def
  init_velocity_profile_def init_velocity_profile_window_def

lemmas eval_defs = VCS_def vcs_def ROS_ERROR_def VCS_FROM_SINGLE_PARAM_REQUIRED_def
  VCS_FROM_SINGLE_PARAM_OPTIONAL_def group_step_def all_or_none_def param_int_def
  param_double_def param_bool_def param_result_def ParameterSetLoader1_def
  ParameterSetLoader2_def child_nh_def resolveName_def getParam_int_def getParam_double_def
  getParam_bool_def getParam_string_def param_bool_default_def as_uchar_def int_neg_def
  shl1_def INT_MIN_def

text \<open>The statements of lines 186--540 on the concrete driver, for any of the devices above.\<close>

lemma configure_demo:
  "run_steps (init_configure (fault_dev n k)) (demo_epos m u c, w0) =
     Some (Continue (demo_configured m u c, w0\<lparr>calls := demo_configure_calls\<rparr>))"
  by (simp add: init_configure_def init_step_defs eval_defs demo_configured_def w0_def
      demo_configure_calls_def Let_def)

lemma demo_configured_sel [simp]:
  "config_nh (demo_configured m u c) = demo_cfg u c"
  "has_init (demo_configured m u c) = False"
  by (simp_all add: demo_configured_def)

lemma clear_faults_demo [simp]:
  "param_bool_default (demo_cfg u c) ''clear_faults'' False = c"
  by (simp add: param_bool_default_def getParam_bool_def resolveName_def)

lemma halt_velocity_demo [simp]:
  "param_bool_default (demo_cfg u c) ''halt_velocity'' False = False"
  by (simp add: param_bool_default_def getParam_bool_def resolveName_def)

lemma ClearFault_demo_configure_calls [simp]: "ClearFault \<notin> set demo_configure_calls"
  by (simp add: demo_configure_calls_def)

text \<open>With no fault pending, \<open>init\<close> succeeds on the concrete driver.\<close>

lemma init_demo:
  "Epos_init (fault_dev 0 0) (demo_epos m u c, w0) =
     Some (True, demo_ready m u c,
           w0\<lparr>calls := demo_configure_calls @ [GetNbOfDeviceError, GetNbOfDeviceError, SetEnableState]\<rparr>)"
  by (simp add: Epos_init_def run_steps_append configure_demo init_query_faults_def
      init_verify_faults_def init_enable_def vcs_def as_uchar_def error_code_loop.simps
      demo_ready_def Let_def)

subsection \<open>Parameter groups\<close>






lemma loader_nh_loader1 [simp]: "loader_nh (ParameterSetLoader1 h) = h"
  by (simp add: ParameterSetLoader1_def)






















subsection \<open>C1: a controller switch and the mode that \<open>write\<close> dispatches on\<close>

text \<open>
  Claim C1 says that the mode set by \<open>doSwitch\<close> is the one that later \<open>write\<close> calls
  dispatch on. \<open>doSwitch\<close> issues the operation-mode command for every starting controller
  that the map knows, and assigns no member: \<open>operation_mode_\<close>, on which \<open>write\<close>
  dispatches, is as before. Here the concrete driver, whose \<open>operation_mode_\<close> holds
  ProfileVelocity, is switched to the controller mapped to Current: the device is told
  the Current mode, and the next \<open>write\<close> still sends the velocity command.
\<close>

theorem doSwitch_leaves_dispatch_mode:
  "Epos_doSwitch (fault_dev 0 0) [''effort_controller''] []
       (demo_ready PROFILE_VELOCITY_MODE False False, w0)
     = Some (demo_ready PROFILE_VELOCITY_MODE False False,
             w0\<lparr>calls := calls w0 @ [SetOperationMode CURRENT_MODE]\<rparr>)
   \<and> Epos_write (fault_dev 0 0)
       ((demo_ready PROFILE_VELOCITY_MODE False False)\<lparr>velocity_cmd := Fin 3, torque_cmd := Fin 4\<rparr>,
        w0\<lparr>calls := calls w0 @ [SetOperationMode CURRENT_MODE]\<rparr>)
     = Some ((demo_ready PROFILE_VELOCITY_MODE False False)\<lparr>velocity_cmd := Fin 3, torque_cmd := Fin 4\<rparr>,
             w0\<lparr>calls := calls w0 @ [SetOperationMode CURRENT_MODE, MoveWithVelocity 3]\<rparr>)"
proof -
  have three: "double_to_int (Fin 3) = Some 3"
    using trunc_of_int [of 3] by (simp add: double_to_int_Fin INT_MIN_def INT_MAX_def)
  have switch: "Epos_doSwitch (fault_dev 0 0) [''effort_controller''] []
       (demo_ready PROFILE_VELOCITY_MODE False False, w0)
     = Some (demo_ready PROFILE_VELOCITY_MODE False False,
             w0\<lparr>calls := calls w0 @ [SetOperationMode CURRENT_MODE]\<rparr>)"
    by (simp add: Epos_doSwitch_def vcs_def)
  have sent: "Epos_write (fault_dev 0 0)
       ((demo_ready PROFILE_VELOCITY_MODE False False)\<lparr>velocity_cmd := Fin 3, torque_cmd := Fin 4\<rparr>,
        w0\<lparr>calls := calls w0 @ [SetOperationMode CURRENT_MODE]\<rparr>)
     = Some ((demo_ready PROFILE_VELOCITY_MODE False False)\<lparr>velocity_cmd := Fin 3, torque_cmd := Fin 4\<rparr>,
             w0\<lparr>calls := calls w0 @ [SetOperationMode CURRENT_MODE, MoveWithVelocity 3]\<rparr>)"
    using write_velocity
      [of "(demo_ready PROFILE_VELOCITY_MODE False False)\<lparr>velocity_cmd := Fin 3, torque_cmd := Fin 4\<rparr>"
          0 3 3 "fault_dev 0 0" "w0\<lparr>calls := calls w0 @ [SetOperationMode CURRENT_MODE]\<rparr>"]
      three
    by (simp add: clamp_velocity_def)
  show ?thesis
    using switch sent by simp
qed

subsection \<open>C2: the commands at construction\<close>




subsection \<open>C3: the velocity command is converted, then clamped\<close>



subsection \<open>C4: all or none of a parameter group\<close>


text \<open>
  The theorem at a group of two attributes (both found, none found, one found), and at
  the driver whose configuration has \<open>motor/dc_motor/nominal_current\<close> alone: \<open>init\<close>
  returns false after the motor type is set, with the report in the log.
\<close>

lemma init_partial_demo:
  "Epos_init (fault_dev 0 0) (demo_partial_epos, w0) =
     Some (False, demo_partial_epos\<lparr>node_handle := Some 0, torque_constant := 2,
                    nominal_current := 0, max_current := 0\<rparr>,
           w0\<lparr>calls := [CreateNodeHandle ''EPOS4'' ''MAXON SERIAL V2'' ''USB'' 1,
                         SetProtocolStackSettings 1000000 500, SetDisableState, SetMotorType 1],
              rosout := [''Expected all or none parameter set: (/epos/motor/dc_motor)'',
                         CHR 0x09 # ''Found: /epos/motor/dc_motor/nominal_current'',
                         CHR 0x09 # ''Expected: /epos/motor/dc_motor/max_output_current'',
                         CHR 0x09 # ''Expected: /epos/motor/dc_motor/thermal_time_constant'']\<rparr>)"
  by (simp add: Epos_init_def init_configure_def init_step_defs eval_defs demo_partial_epos_def
      demo_partial_cfg_def w0_def Let_def)


subsection \<open>C5: latent faults at bring-up\<close>



subsection \<open>C6: a device call that fails during \<open>read\<close>\<close>

text \<open>
  Claim C6 says that a cached value keeps its previous content when its device call
  fails. \<open>read\<close> does not look at the results of its calls: the position, the velocity,
  the current and the effort are assigned from the locals \<open>position_raw\<close>, \<open>velocity_raw\<close>
  and \<open>current_raw\<close> in every case, and a failed call leaves its local uninitialised. Here
  the concrete driver caches the position 3, the position read fails and the local
  happens to hold 7: the cached position becomes 7. (\<open>read\<close> returns, and the statusword
  would be kept, since \<open>statusword_\<close> is itself the out-parameter of its call.)
\<close>

theorem read_failed_call_overwrites_position:
  "Epos_read position_fails_dev (7, 0, 0)
       ((demo_ready PROFILE_VELOCITY_MODE False False)\<lparr>position := Fin 3\<rparr>, w0)
     = Some ((demo_ready PROFILE_VELOCITY_MODE False False)
               \<lparr>position := Fin 7, velocity := Fin 0, current := Fin 0, effort := Fin 0\<rparr>,
             w0\<lparr>calls := calls w0 @ [GetObject 0x6041 0x00 2, GetPositionIs, GetVelocityIs, GetCurrentIs]\<rparr>)"
  by (simp add: Epos_read_def vcs_def position_fails_dev_def currentToTorque_def Let_def
      demo_ready_def demo_configured_def demo_epos_def demo_raw_def)

subsection \<open>C7: after a failed \<open>init\<close>, \<open>read\<close> and \<open>write\<close> do nothing\<close>

text \<open>
  Claim C7. A driver is constructed and its \<open>init\<close> returns false. Then it is not
  initialised, and every later \<open>read\<close> and \<open>write\<close>, whatever the device, the world and
  the commands that the host has stored meanwhile, returns with the driver and the world
  unchanged: no device call is issued and no member is modified.
\<close>

theorem failed_init_read_write_noop:
  assumes "Epos_ctor hexf raw nm cfg = Some s"
    and "Epos_init dev (s, w) = Some (False, s', w')"
  shows "\<not> has_init s'
         \<and> (\<forall>dev2 raw2 w2 pc vc tc.
              let s2 = s'\<lparr>position_cmd := pc, velocity_cmd := vc, torque_cmd := tc\<rparr>
              in Epos_read dev2 raw2 (s2, w2) = Some (s2, w2)
                 \<and> Epos_write dev2 (s2, w2) = Some (s2, w2))"
proof -
  have "\<not> has_init s"
    using ctor_initial_values [OF assms(1)] by simp
  then have "\<not> has_init s'"
    using init_False_has_init [OF assms(2)] by simp
  then show ?thesis
    by (simp add: Epos_read_def Epos_write_def)
qed

text \<open>
  The theorem at the concrete driver when no device is found: \<open>init\<close> returns false after
  \<open>CreateNodeHandle\<close>, and a later cycle with a new velocity command issues no call.
\<close>

theorem failed_init_read_write_noop_witness:
  "Epos_init no_dev (demo_epos PROFILE_VELOCITY_MODE True False, w0) =
     Some (False, (demo_epos PROFILE_VELOCITY_MODE True False)\<lparr>node_handle := None\<rparr>,
           w0\<lparr>calls := [CreateNodeHandle ''EPOS4'' ''MAXON SERIAL V2'' ''USB'' 1],
              rosout := [''Could not find motor'']\<rparr>)
   \<and> Epos_read (fault_dev 0 0) (1, 2, 3)
        ((demo_epos PROFILE_VELOCITY_MODE True False)\<lparr>node_handle := None, velocity_cmd := Fin 5\<rparr>, w0)
      = Some ((demo_epos PROFILE_VELOCITY_MODE True False)\<lparr>node_handle := None, velocity_cmd := Fin 5\<rparr>, w0)
   \<and> Epos_write (fault_dev 0 0)
        ((demo_epos PROFILE_VELOCITY_MODE True False)\<lparr>node_handle := None, velocity_cmd := Fin 5\<rparr>, w0)
      = Some ((demo_epos PROFILE_VELOCITY_MODE True False)\<lparr>node_handle := None, velocity_cmd := Fin 5\<rparr>, w0)"
proof -
  let ?s = "demo_epos PROFILE_VELOCITY_MODE True False"
  have failed: "Epos_init no_dev (?s, w0) =
     Some (False, ?s\<lparr>node_handle := None\<rparr>,
           w0\<lparr>calls := [CreateNodeHandle ''EPOS4'' ''MAXON SERIAL V2'' ''USB'' 1],
              rosout := [''Could not find motor'']\<rparr>)"
    by (simp add: Epos_init_def init_configure_def init_valid_def init_create_node_handle_def
        vcs_def ROS_ERROR_def no_dev_def w0_def)
  note t = failed_init_read_write_noop [OF ctor_demo failed, THEN conjunct2, rule_format,
      where ?dev2.0 = "fault_dev 0 0" and ?raw2.0 = "(1, 2, 3)" and ?w2.0 = w0
        and pc = "Fin 0" and vc = "Fin 5" and tc = "Fin 0", unfolded Let_def]
  have same: "?s\<lparr>node_handle := None, position_cmd := Fin 0, velocity_cmd := Fin 5, torque_cmd := Fin 0\<rparr>
      = ?s\<lparr>node_handle := None, velocity_cmd := Fin 5\<rparr>"
    by (simp add: demo_epos_def demo_raw_def)
  show ?thesis
    using failed t same by simp
qed

subsection \<open>C8: the severity of the motor status\<close>

lemma level_mergeSummary [simp]: "level (mergeSummary lvl msg stat) = max lvl (level stat)"
  by (simp add: mergeSummary_def Let_def)

lemma level_summary [simp]: "level (summary lvl msg stat) = lvl"
  by (simp add: summary_def)

lemma level_add_value [simp]: "level (add_value key val stat) = level stat"
  by (simp add: add_value_def)

lemma level_add_bool [simp]: "level (add_bool key b stat) = level stat"
  by (simp add: add_bool_def)

lemma level_statusword_summary:
  "level (statusword_summary s stat) =
     (if STATUSWORD FAULT (statusword s) then ERROR
      else if STATUSWORD WARNING (statusword s)
              \<or> (\<not> STATUSWORD QUICKSTOP (statusword s)
                  \<and> STATUSWORD READY_TO_SWITCH_ON (statusword s)
                  \<and> STATUSWORD SWITCHED_ON (statusword s) \<and> STATUSWORD ENABLE (statusword s))
      then WARN else OK)"
  by (auto simp: statusword_summary_def Let_def OK_def WARN_def ERROR_def)

lemma level_status_error_loop:
  "level (fst (status_error_loop dev info i n (stat, w))) =
     (if i \<le> n then max ERROR (level stat) else level stat)"
proof (induction "Suc n - i" arbitrary: i stat w)
  case 0
  then have "\<not> i \<le> n"
    by simp
  then show ?case
    by (simp add: status_error_loop.simps)
next
  case (Suc k)
  then have i: "i \<le> n" and k: "k = Suc n - (i + 1)"
    by simp_all
  let ?w = "w\<lparr>calls := calls w @ [GetDeviceErrorCode (int i)]\<rparr>"
  obtain stat' where step: "status_error_loop dev info i n (stat, w)
      = status_error_loop dev info (i + 1) n (stat', ?w)" and stat': "level stat' = max ERROR (level stat)"
    using i by (cases "dev (calls w) (GetDeviceErrorCode (int i))")
      (simp_all add: status_error_loop.simps [of dev info i] vcs_def)
  show ?case
    unfolding step using Suc.hyps(1) [OF k, of stat' ?w] stat' i by (simp add: ERROR_def)
qed

lemma statusword_0x80 [simp]:
  "STATUSWORD WARNING 0x80" "\<not> STATUSWORD FAULT 0x80" "\<not> STATUSWORD QUICKSTOP 0x80"
  "\<not> STATUSWORD READY_TO_SWITCH_ON 0x80" "\<not> STATUSWORD SWITCHED_ON 0x80"
  "\<not> STATUSWORD ENABLE 0x80" "\<not> STATUSWORD VOLTAGE_ENABLED 0x80"
  by (simp_all add: STATUSWORD_def WARNING_def FAULT_def QUICKSTOP_def READY_TO_SWITCH_ON_def
      SWITCHED_ON_def ENABLE_def VOLTAGE_ENABLED_def)

lemma statusword_0x88 [simp]:
  "STATUSWORD WARNING 0x88" "STATUSWORD FAULT 0x88"
  by (simp_all add: STATUSWORD_def WARNING_def FAULT_def)

text \<open>
  Claim C8 says that a set warning bit with a clear fault bit gives a WARN summary, not
  ERROR. After the statusword, \<open>buildMotorStatus\<close> asks the device for its pending
  errors, and merges ERROR for each of them and when the question fails. Here the
  initialised concrete driver caches the statusword \<open>0x80\<close> (the warning bit alone) and
  the device does not answer: the summary is ERROR.
\<close>

theorem warning_bit_summary_counterexample:
  "STATUSWORD WARNING 0x80 \<and> \<not> STATUSWORD FAULT 0x80
   \<and> Epos_buildMotorStatus no_dev no_error_info
       ((demo_ready PROFILE_VELOCITY_MODE False False)\<lparr>statusword := 0x80\<rparr>) (fresh_status, w0)
     = Some (\<lparr>level = ERROR, message = ''Warning; Could not read device errors'',
               key_values = [(''Actuator Name'', ''wheel''), (''Enabled'', ''False''),
                             (''Fault'', ''False''), (''Voltage Enabled'', ''False''),
                             (''Quickstop'', ''False''), (''Warning'', ''True'')]\<rparr>,
             w0\<lparr>calls := calls w0 @ [GetNbOfDeviceError]\<rparr>)
   \<and> ERROR \<noteq> WARN"
  by (simp add: Epos_buildMotorStatus_def statusword_summary_def summary_def mergeSummary_def
      add_value_def add_bool_def vcs_def no_dev_def no_error_info_def fresh_status_def
      OK_def WARN_def ERROR_def Let_def demo_ready_def demo_configured_def demo_epos_def
      demo_raw_def)

text \<open>
  Claim C8, amended. For an initialised driver the motor status report has an ERROR
  summary whenever the fault bit of the statusword is set, whatever the other bits, and a
  WARN summary (not ERROR) when the warning bit is set, the fault bit is clear and the
  device answers the count of its pending errors with zero. The level only rises within
  a report: no \<open>mergeSummary\<close> lowers it, and the level reached on the statusword is at
  most the final one.
\<close>

theorem motor_status_severity:
  assumes "has_init s" and "node_handle s = Some h"
  shows "\<exists>stat' w'. Epos_buildMotorStatus dev info s (stat, w) = Some (stat', w')
           \<and> (STATUSWORD FAULT (statusword s) \<longrightarrow> level stat' = ERROR)
           \<and> (STATUSWORD WARNING (statusword s) \<and> \<not> STATUSWORD FAULT (statusword s)
                \<and> (\<exists>n. dev (calls w) GetNbOfDeviceError = Some n \<and> as_uchar n = 0) \<longrightarrow>
                level stat' = WARN \<and> level stat' \<noteq> ERROR)
           \<and> level (statusword_summary s (add_value ''Actuator Name'' (actuator_name s) stat))
                \<le> level stat'
           \<and> (\<forall>lvl msg st. level st \<le> level (mergeSummary lvl msg st))"
proof -
  define stat0 where "stat0 = add_value ''Actuator Name'' (actuator_name s) stat"
  define stat6 where "stat6 =
    add_bool ''Warning'' (STATUSWORD WARNING (statusword s))
      (add_bool ''Quickstop'' (STATUSWORD QUICKSTOP (statusword s))
        (add_bool ''Voltage Enabled'' (STATUSWORD VOLTAGE_ENABLED (statusword s))
          (add_bool ''Fault'' (STATUSWORD FAULT (statusword s))
            (add_bool ''Enabled'' (STATUSWORD ENABLE (statusword s))
              (statusword_summary s stat0)))))"
  define w1 where "w1 = w\<lparr>calls := calls w @ [GetNbOfDeviceError]\<rparr>"
  define result where "result =
    (case dev (calls w) GetNbOfDeviceError of
       Some n \<Rightarrow> status_error_loop dev info 1 (as_uchar n) (stat6, w1)
     | None \<Rightarrow> (mergeSummary ERROR
                   (case info (calls w1) of
                      Some error_str \<Rightarrow> ''Could not read device errors: '' @ error_str
                    | None \<Rightarrow> ''Could not read device errors'') stat6, w1))"
  have built: "Epos_buildMotorStatus dev info s (stat, w) = Some result"
    using assms
    by (simp add: Epos_buildMotorStatus_def Let_def vcs_def result_def stat6_def stat0_def w1_def
        split: option.splits)
  have l6: "level stat6 = level (statusword_summary s stat0)"
    by (simp add: stat6_def)
  have bound: "level (statusword_summary s stat0) \<le> ERROR"
    by (simp add: level_statusword_summary OK_def WARN_def ERROR_def)
  have final: "level (fst result) =
      (case dev (calls w) GetNbOfDeviceError of
         Some n \<Rightarrow> (if 1 \<le> as_uchar n then ERROR else level (statusword_summary s stat0))
       | None \<Rightarrow> ERROR)"
    using bound
    by (cases "dev (calls w) GetNbOfDeviceError")
      (simp_all add: result_def level_status_error_loop l6 max_def)
  have fault: "STATUSWORD FAULT (statusword s) \<longrightarrow> level (fst result) = ERROR"
    by (simp add: final level_statusword_summary split: option.splits)
  have warn: "STATUSWORD WARNING (statusword s) \<and> \<not> STATUSWORD FAULT (statusword s)
      \<and> (\<exists>n. dev (calls w) GetNbOfDeviceError = Some n \<and> as_uchar n = 0) \<longrightarrow>
      level (fst result) = WARN \<and> level (fst result) \<noteq> ERROR"
    by (auto simp: final level_statusword_summary WARN_def ERROR_def)
  have rises: "level (statusword_summary s stat0) \<le> level (fst result)"
    using bound by (simp add: final split: option.splits)
  have merge: "\<forall>lvl msg st. level st \<le> level (mergeSummary lvl msg st)"
    by simp
  show ?thesis
    using built fault warn rises merge unfolding stat0_def [symmetric]
    by (cases result) auto
qed

text \<open>
  The theorem at the initialised concrete driver: with the statusword \<open>0x80\<close> and a device
  without pending errors the summary is WARN, and with the statusword \<open>0x88\<close> (the fault
  and the warning bit) it is ERROR.
\<close>

theorem motor_status_severity_witness:
  "(\<exists>stat' w'. Epos_buildMotorStatus (fault_dev 0 0) no_error_info
        ((demo_ready PROFILE_VELOCITY_MODE False False)\<lparr>statusword := 0x80\<rparr>) (fresh_status, w0)
        = Some (stat', w') \<and> level stat' = WARN)
   \<and> (\<exists>stat' w'. Epos_buildMotorStatus (fault_dev 0 0) no_error_info
        ((demo_ready PROFILE_VELOCITY_MODE False False)\<lparr>statusword := 0x88\<rparr>) (fresh_status, w0)
        = Some (stat', w') \<and> level stat' = ERROR)"
proof -
  let ?warn = "(demo_ready PROFILE_VELOCITY_MODE False False)\<lparr>statusword := 0x80\<rparr>"
  let ?fault = "(demo_ready PROFILE_VELOCITY_MODE False False)\<lparr>statusword := 0x88\<rparr>"
  have zero: "\<exists>n. fault_dev 0 0 (calls w0) GetNbOfDeviceError = Some n \<and> as_uchar n = 0"
    by (simp add: as_uchar_def)
  have a: "\<exists>stat' w'. Epos_buildMotorStatus (fault_dev 0 0) no_error_info ?warn (fresh_status, w0)
        = Some (stat', w') \<and> level stat' = WARN"
    using motor_status_severity [of ?warn 0 "fault_dev 0 0" no_error_info fresh_status w0] zero
    by auto
  have b: "\<exists>stat' w'. Epos_buildMotorStatus (fault_dev 0 0) no_error_info ?fault (fresh_status, w0)
        = Some (stat', w') \<and> level stat' = ERROR"
    using motor_status_severity [of ?fault 0 "fault_dev 0 0" no_error_info fresh_status w0]
    by auto
  show ?thesis
    using a b by simp
qed

subsection \<open>C9: the current command in milliamps\<close>



subsection \<open>C10: a successful \<open>init\<close> has counted zero faults last\<close>

text \<open>
  Claim C10. Whenever \<open>init\<close> returns true, the calls it leaves end with a fault count
  (\<open>GetNbOfDeviceError\<close>) directly followed by the enable command, the device answered
  that count with zero errors, and it is not the only count of this run of \<open>init\<close>: an
  earlier one is among the calls issued before it (the query of line 544), so the count of
  line 571 is made on every path, also when no fault was found at first.
\<close>

theorem init_true_last_count_zero:
  assumes "Epos_init dev (s, w) = Some (True, s', w')"
  shows "\<exists>pre n. calls w' = pre @ [GetNbOfDeviceError, SetEnableState]
           \<and> dev pre GetNbOfDeviceError = Some n \<and> as_uchar n = 0
           \<and> GetNbOfDeviceError \<in> set (drop (length (calls w)) pre)
           \<and> has_init s'"
proof -
  from assms obtain x1 x2 x3 where
    conf: "run_steps (init_configure dev) (s, w) = Some (Continue x1)"
    and query: "init_query_faults dev x1 = Some (Continue x2)"
    and verify: "init_verify_faults dev x2 = Some (Continue x3)"
    and enable: "init_enable dev x3 = Some (Continue (s', w'))"
    by (rule init_TrueD)
  from keeps_ContinueD [OF keeps_init_configure conf]
  obtain ext0 where ext0: "calls (snd x1) = calls w @ ext0"
    by auto
  from query_faults_ContinueD [OF query]
  obtain ext where ext: "calls (snd x2) = calls (snd x1) @ GetNbOfDeviceError # ext"
    by auto
  from verify_faults_ContinueD [OF verify]
  obtain n where n: "dev (calls (snd x2)) GetNbOfDeviceError = Some n" "as_uchar n = 0"
    and x3: "calls (snd x3) = calls (snd x2) @ [GetNbOfDeviceError]"
    by auto
  from enable_ContinueD [OF enable]
  have fin: "has_init s'" "calls w' = calls (snd x3) @ [SetEnableState]"
    by auto
  have "calls w' = calls (snd x2) @ [GetNbOfDeviceError, SetEnableState]"
    using fin x3 by simp
  moreover have "GetNbOfDeviceError \<in> set (drop (length (calls w)) (calls (snd x2)))"
    using ext ext0 by simp
  ultimately show ?thesis
    using n fin by blast
qed

text \<open>The theorem at the concrete driver and a device without faults.\<close>

theorem init_true_last_count_zero_witness:
  "Epos_init (fault_dev 0 0) (demo_epos PROFILE_VELOCITY_MODE True False, w0) =
     Some (True, demo_ready PROFILE_VELOCITY_MODE True False,
           w0\<lparr>calls := demo_configure_calls @ [GetNbOfDeviceError, GetNbOfDeviceError, SetEnableState]\<rparr>)
   \<and> (\<exists>pre n. demo_configure_calls @ [GetNbOfDeviceError, GetNbOfDeviceError, SetEnableState]
               = pre @ [GetNbOfDeviceError, SetEnableState]
           \<and> fault_dev 0 0 pre GetNbOfDeviceError = Some n \<and> as_uchar n = 0
           \<and> GetNbOfDeviceError \<in> set (drop (length (calls w0)) pre)
           \<and> has_init (demo_ready PROFILE_VELOCITY_MODE True False))"
  using init_true_last_count_zero [OF init_demo [of PROFILE_VELOCITY_MODE True False]] init_demo
  by simp

end
